theory Spec2Isabelle
  imports Main "HOL-Library.AList" "HOL-Library.Sublist" "HOL-Library.Char_ord"
    "HOL-Library.List_Lexorder" "HOL-Library.Product_Lexorder"
begin

section \<open>The interceptor registry (interceptorManager.ts)\<close>

text \<open>
  \<^verbatim>\<open>class InterceptorManager<T>\<close> keeps a \<^verbatim>\<open>Map<number, T>\<close>, the array of
  registered ids and the next id. The \<^verbatim>\<open>Map\<close> is an association list in insertion order
  (one entry per key: \<^verbatim>\<open>set\<close> is \<open>AList.update\<close>, \<^verbatim>\<open>delete\<close> is \<open>AList.delete\<close>,
  \<^verbatim>\<open>size\<close> is the number of entries). Ids are JavaScript numbers counted up from 0 by
  \<^verbatim>\<open>nextId++\<close>; they are natural numbers here, which is exact below \<open>2^53\<close>
  registrations. A stored callback is a function value, hence never falsy: the
  \<^verbatim>\<open>if (!interceptor) continue\<close> of the traversals skips exactly the ids that
  \<^verbatim>\<open>get\<close> does not find.
\<close>

record 'a InterceptorManager =
  interceptors :: "(nat \<times> 'a) list"
  interceptorIds :: "nat list"
  nextId :: nat

definition InterceptorManager_new :: "'a InterceptorManager" where
  "InterceptorManager_new = \<lparr>interceptors = [], interceptorIds = [], nextId = 0\<rparr>"

definition use :: "'a \<Rightarrow> 'a InterceptorManager \<Rightarrow> nat \<times> 'a InterceptorManager" where
  "use interceptor m =
     (let i = nextId m in
      (i, \<lparr>interceptors = AList.update i interceptor (interceptors m),
           interceptorIds = interceptorIds m @ [i],
           nextId = nextId m + 1\<rparr>))"

definition eject :: "nat \<Rightarrow> 'a InterceptorManager \<Rightarrow> 'a InterceptorManager" where
  "eject i m =
     m\<lparr>interceptorIds := filter (\<lambda>j. j \<noteq> i) (interceptorIds m),
       interceptors := AList.delete i (interceptors m)\<rparr>"

definition size_of :: "'a InterceptorManager \<Rightarrow> nat" where
  "size_of m = length (interceptors m)"

text \<open>
  What a thrown JavaScript value is to this code: an object with a \<^verbatim>\<open>name\<close> and a
  \<^verbatim>\<open>message\<close>, or something else (a falsy value, or a value without a \<^verbatim>\<open>name\<close>). An
  awaited promise is fulfilled, rejected, or never settles.
\<close>

datatype thrown = Err (err_name: string) (err_message: string) | NonError

datatype 'a promise = Fulfilled 'a | Rejected thrown | Pending

text \<open>
  \<^verbatim>\<open>forEachAsync(fn)\<close> walks \<^verbatim>\<open>interceptorIds\<close> from the front, awaiting \<^verbatim>\<open>fn\<close> on each
  callback found; \<^verbatim>\<open>forEachReverseAsync\<close> walks it from the back. The variables a
  callback closure assigns are the state \<open>s\<close> threaded through the walk. A rejected
  or never-settling \<^verbatim>\<open>await\<close> ends the walk. The registry itself is not changed during
  one walk.
\<close>

fun forEach_ids :: "(nat \<times> 'a) list \<Rightarrow> ('a \<Rightarrow> 's \<Rightarrow> 's promise) \<Rightarrow> nat list \<Rightarrow> 's \<Rightarrow> 's promise" where
  "forEach_ids tbl fn [] s = Fulfilled s"
| "forEach_ids tbl fn (i # ids) s =
     (case map_of tbl i of
        None \<Rightarrow> forEach_ids tbl fn ids s
      | Some interceptor \<Rightarrow>
          (case fn interceptor s of
             Fulfilled s' \<Rightarrow> forEach_ids tbl fn ids s'
           | Rejected e \<Rightarrow> Rejected e
           | Pending \<Rightarrow> Pending))"

definition forEachAsync :: "'a InterceptorManager \<Rightarrow> ('a \<Rightarrow> 's \<Rightarrow> 's promise) \<Rightarrow> 's \<Rightarrow> 's promise" where
  "forEachAsync m fn s = forEach_ids (interceptors m) fn (interceptorIds m) s"

definition forEachReverseAsync :: "'a InterceptorManager \<Rightarrow> ('a \<Rightarrow> 's \<Rightarrow> 's promise) \<Rightarrow> 's \<Rightarrow> 's promise" where
  "forEachReverseAsync m fn s = forEach_ids (interceptors m) fn (rev (interceptorIds m)) s"

text \<open>
  A sequence of \<^verbatim>\<open>use\<close>/\<^verbatim>\<open>eject\<close> calls on a registry, with the ids that the
  \<^verbatim>\<open>use\<close> calls returned, in call order.
\<close>

datatype 'a registry_call = Use 'a | Eject nat

fun run_calls :: "'a registry_call list \<Rightarrow> 'a InterceptorManager \<Rightarrow> nat list \<times> 'a InterceptorManager" where
  "run_calls [] m = ([], m)"
| "run_calls (Use f # cs) m =
     (case use f m of (i, m') \<Rightarrow> (case run_calls cs m' of (ids, m'') \<Rightarrow> (i # ids, m'')))"
| "run_calls (Eject i # cs) m = run_calls cs (eject i m)"

text \<open>
  The registrations the spec counts as currently registered after a call sequence:
  the \<open>k\<close>-th \<^verbatim>\<open>use\<close> registers id \<open>n + k\<close>, and a registration survives when no
  later call ejects its id.
\<close>

fun is_eject_of :: "nat \<Rightarrow> 'a registry_call \<Rightarrow> bool" where
  "is_eject_of i (Eject j) = (i = j)"
| "is_eject_of i (Use f) = False"

fun surviving :: "'a registry_call list \<Rightarrow> nat \<Rightarrow> (nat \<times> 'a) list" where
  "surviving [] n = []"
| "surviving (Use f # cs) n =
     (if list_ex (is_eject_of n) cs then [] else [(n, f)]) @ surviving cs (Suc n)"
| "surviving (Eject i # cs) n = surviving cs n"

text \<open>The callbacks a forward (reverse) traversal visits, in visiting order.\<close>

definition visited_forward :: "'a InterceptorManager \<Rightarrow> 'a list promise" where
  "visited_forward m = forEachAsync m (\<lambda>f acc. Fulfilled (acc @ [f])) []"

definition visited_reverse :: "'a InterceptorManager \<Rightarrow> 'a list promise" where
  "visited_reverse m = forEachReverseAsync m (\<lambda>f acc. Fulfilled (acc @ [f])) []"


section \<open>Values, headers and options (index.ts)\<close>

text \<open>
  The values a request body (\<^verbatim>\<open>data\<close>, \<^verbatim>\<open>body\<close>, \<^verbatim>\<open>bodyCopy\<close>: all typed \<^verbatim>\<open>any\<close>) can
  hold, as far as the code tells them apart with \<^verbatim>\<open>typeof\<close>, \<^verbatim>\<open>instanceof\<close> and
  truthiness. Numbers are integers here (no \<^verbatim>\<open>NaN\<close>, no fractions); bytes are \<open>char\<close>s.
\<close>

type_synonym bytes = "char list"

datatype jsval =
    JUndefined
  | JNull
  | JBool bool
  | JNum int
  | JStr string
  | JFormData "(string \<times> string) list"
  | JURLSearchParams "(string \<times> string) list"
  | JBlob string bytes
  | JArrayBuffer bytes
  | JTypedArray bytes
  | JObject "(string \<times> jsval) list"
  | JArray "jsval list"
  | JReadableStream "bytes list"
  | JFunction

fun truthy :: "jsval \<Rightarrow> bool" where
  "truthy JUndefined = False"
| "truthy JNull = False"
| "truthy (JBool b) = b"
| "truthy (JNum n) = (n \<noteq> 0)"
| "truthy (JStr s) = (s \<noteq> [])"
| "truthy v = True"

fun typeof_object :: "jsval \<Rightarrow> bool" where
  "typeof_object JUndefined = False"
| "typeof_object (JBool b) = False"
| "typeof_object (JNum n) = False"
| "typeof_object (JStr s) = False"
| "typeof_object JFunction = False"
| "typeof_object v = True"

fun detectContentType :: "jsval \<Rightarrow> string option" where
  "detectContentType (JStr s) = Some ''text/plain;charset=UTF-8''"
| "detectContentType (JFormData fd) = None"
| "detectContentType (JURLSearchParams ps) = Some ''application/x-www-form-urlencoded;charset=UTF-8''"
| "detectContentType (JBlob ty bs) = Some (if ty \<noteq> [] then ty else ''application/octet-stream'')"
| "detectContentType (JArrayBuffer bs) = Some ''application/octet-stream''"
| "detectContentType (JTypedArray bs) = Some ''application/octet-stream''"
| "detectContentType v = (if typeof_object v then Some ''application/json'' else None)"

fun isBodyReusable :: "jsval \<Rightarrow> bool" where
  "isBodyReusable body =
     (if \<not> truthy body then True
      else case body of
        JStr s \<Rightarrow> True
      | JURLSearchParams ps \<Rightarrow> True
      | JFormData fd \<Rightarrow> True
      | JBlob ty bs \<Rightarrow> True
      | JArrayBuffer bs \<Rightarrow> True
      | JTypedArray bs \<Rightarrow> True
      | _ \<Rightarrow> typeof_object body)"

text \<open>
  Strings: ASCII case mapping (\<^verbatim>\<open>toLowerCase\<close>, \<^verbatim>\<open>toUpperCase\<close>), \<^verbatim>\<open>includes\<close>,
  \<^verbatim>\<open>trim\<close>, splitting at a character, decimal numerals and \<^verbatim>\<open>parseInt(s, 10)\<close>
  (\<open>None\<close> is \<^verbatim>\<open>NaN\<close>).
\<close>

definition to_lower :: "char \<Rightarrow> char" where
  "to_lower c = (let n = (of_char c :: nat) in if 65 \<le> n \<and> n \<le> 90 then char_of (n + 32) else c)"

definition to_upper :: "char \<Rightarrow> char" where
  "to_upper c = (let n = (of_char c :: nat) in if 97 \<le> n \<and> n \<le> 122 then char_of (n - 32) else c)"

definition toLowerCase :: "string \<Rightarrow> string" where
  "toLowerCase s = map to_lower s"

definition toUpperCase :: "string \<Rightarrow> string" where
  "toUpperCase s = map to_upper s"

fun str_includes :: "string \<Rightarrow> string \<Rightarrow> bool" where
  "str_includes [] p = (p = [])"
| "str_includes (c # cs) p = (prefix p (c # cs) \<or> str_includes cs p)"

definition is_space :: "char \<Rightarrow> bool" where
  "is_space c = (of_char c \<in> {9, 10, 11, 12, 13, 32 :: nat})"

definition trim :: "string \<Rightarrow> string" where
  "trim s = rev (dropWhile is_space (rev (dropWhile is_space s)))"

fun split_at :: "char \<Rightarrow> string \<Rightarrow> string list" where
  "split_at d [] = [[]]"
| "split_at d (c # cs) =
     (if c = d then [] # split_at d cs
      else (case split_at d cs of [] \<Rightarrow> [[c]] | w # ws \<Rightarrow> (c # w) # ws))"

fun decimal :: "nat \<Rightarrow> string" where
  "decimal n = (if n < 10 then [char_of (48 + n)] else decimal (n div 10) @ [char_of (48 + n mod 10)])"

definition is_digit :: "char \<Rightarrow> bool" where
  "is_digit c = (48 \<le> (of_char c :: nat) \<and> (of_char c :: nat) \<le> 57)"

definition parseInt10 :: "string \<Rightarrow> int option" where
  "parseInt10 s =
     (let s1 = dropWhile is_space s;
          neg = (case s1 of c # r \<Rightarrow> c = CHR ''-'' | [] \<Rightarrow> False);
          s2 = (case s1 of c # r \<Rightarrow> if c = CHR ''-'' \<or> c = CHR ''+'' then r else s1 | [] \<Rightarrow> s1);
          ds = takeWhile is_digit s2;
          n = foldl (\<lambda>a d. 10 * a + (of_char d - 48)) (0::nat) ds
      in if ds = [] then None else Some (if neg then - int n else int n))"

text \<open>
  A \<^verbatim>\<open>Headers\<close> object: one entry per lower-cased name, \<^verbatim>\<open>get\<close> and \<^verbatim>\<open>set\<close> by
  lower-cased name, \<^verbatim>\<open>append\<close> joining the values of a repeated name with a comma.
  \<^verbatim>\<open>HeadersInit\<close> is such an object or a plain record of names and values. Names and
  values are taken as valid header text.
\<close>

type_synonym Headers = "(string \<times> string) list"

datatype HeadersInit = HeadersObject Headers | HeadersRecord "(string \<times> string) list"

definition Headers_get :: "Headers \<Rightarrow> string \<Rightarrow> string option" where
  "Headers_get h name = map_of h (toLowerCase name)"

definition Headers_set :: "Headers \<Rightarrow> string \<Rightarrow> string \<Rightarrow> Headers" where
  "Headers_set h name v = AList.update (toLowerCase name) v h"

definition Headers_append :: "Headers \<Rightarrow> string \<times> string \<Rightarrow> Headers" where
  "Headers_append h nv =
     (case map_of h (toLowerCase (fst nv)) of
        None \<Rightarrow> h @ [(toLowerCase (fst nv), snd nv)]
      | Some old \<Rightarrow> AList.update (toLowerCase (fst nv)) (old @ '', '' @ snd nv) h)"

definition Headers_new :: "(string \<times> string) list \<Rightarrow> Headers" where
  "Headers_new init = foldl Headers_append [] init"

fun normalizeHeaders :: "HeadersInit \<Rightarrow> Headers" where
  "normalizeHeaders (HeadersObject h) = h"
| "normalizeHeaders (HeadersRecord r) = Headers_new r"

text \<open>
  \<^verbatim>\<open>parseXHRHeaders\<close>: the lines of \<^verbatim>\<open>getAllResponseHeaders()\<close>, split at \<^verbatim>\<open>\r?\n\<close>, each
  split at its first colon; a line with an empty name is skipped, a later line with the
  same name overwrites an earlier one.
\<close>

definition strip_cr :: "string \<Rightarrow> string" where
  "strip_cr l = (if l \<noteq> [] \<and> last l = CHR 0x0D then butlast l else l)"

definition split_lines :: "string \<Rightarrow> string list" where
  "split_lines s = (let ls = split_at (CHR 0x0A) s in map strip_cr (butlast ls) @ [last ls])"

definition parse_header_line :: "(string \<times> string) list \<Rightarrow> string \<Rightarrow> (string \<times> string) list" where
  "parse_header_line hs line =
     (let key = takeWhile (\<lambda>c. c \<noteq> CHR '':'') line;
          rest = drop (Suc (length key)) line
      in if key = [] then hs else AList.update (trim key) (trim rest) hs)"

definition parseXHRHeaders :: "string \<Rightarrow> (string \<times> string) list" where
  "parseXHRHeaders headerStr =
     (if headerStr = [] then [] else foldl parse_header_line [] (split_lines headerStr))"


section \<open>Options, responses and the environment\<close>

text \<open>
  \<^verbatim>\<open>RequestOptions\<close>, with the fields the code reads (\<^verbatim>\<open>requestType\<close>, \<^verbatim>\<open>responseType\<close>
  and \<^verbatim>\<open>cache\<close> are never read). An absent field and a field holding \<^verbatim>\<open>undefined\<close> or
  \<^verbatim>\<open>null\<close> are both \<open>None\<close> (\<open>JUndefined\<close> for a body value). A progress callback
  gets the byte counts of its event (the \<^verbatim>\<open>progress\<close> number is computed from them) and
  returns, or throws the value given. \<^verbatim>\<open>options.signal\<close> is the caller's signal or the
  never-aborted one that normalization makes.
\<close>

datatype signal = CallerSignal | FreshSignal

record transfer_event =
  finished :: nat
  total :: "int option"

type_synonym progress_callback = "transfer_event \<Rightarrow> thrown option"

record RequestOptions =
  method' :: "string option"
  headers :: "HeadersInit option"
  timeout :: "nat option"
  retries :: "int option"
  retryDelay :: "nat option"
  onUploadProgress :: "progress_callback option"
  onDownloadProgress :: "progress_callback option"
  signal :: "signal option"
  params :: "(string \<times> string) list option"
  data :: jsval
  body :: jsval
  bodyCopy :: jsval

record RequestContext =
  url :: string
  options :: RequestOptions

record PartialContext =
  url_opt :: "string option"
  options_opt :: "RequestOptions option"

text \<open>
  A \<^verbatim>\<open>Response\<close>. Its body is null or a byte stream: the chunks with the time (in ms
  after the transport call) at which each arrives, and the time at which the stream
  closes, or fails with an error.
\<close>

record body_stream =
  chunks :: "(nat \<times> bytes) list"
  closes_at :: nat
  close_error :: "thrown option"

record Response =
  status :: nat
  ok :: bool
  statusText :: string
  res_headers :: Headers
  res_body :: "body_stream option"

type_synonym ReqInterceptor = "RequestContext \<Rightarrow> PartialContext option promise"

type_synonym ResInterceptor = "Response \<Rightarrow> Response promise"

record CommonRequest =
  defaults :: RequestOptions
  priv_timeout :: nat
  interceptors_request :: "ReqInterceptor InterceptorManager"
  interceptors_response :: "ResInterceptor InterceptorManager"

text \<open>
  The environment. The platform's built-ins are parameters. The transport (\<^verbatim>\<open>fetch\<close>)
  answers its \<open>k\<close>-th call, for the url, method, headers and body it is given, by
  responding or failing after some time, or by hanging; the caller's signal is aborted
  at some time after the start of that call (\<open>Some 0\<close>: it is already aborted), or not
  at all. The event-based transport (\<^verbatim>\<open>XMLHttpRequest\<close>) reports upload progress events
  (time, \<^verbatim>\<open>lengthComputable\<close>, \<^verbatim>\<open>loaded\<close>, \<^verbatim>\<open>total\<close>) and ends, if it does, by reaching
  \<^verbatim>\<open>readyState\<close> 4 with a status, or with a network error.
\<close>

record platform =
  JSON_stringify :: "jsval \<Rightarrow> thrown + jsval"
  JSON_parse :: "string \<Rightarrow> thrown + jsval"
  structuredClone :: "jsval \<Rightarrow> thrown + jsval"
  URLSearchParams_toString :: "(string \<times> string) list \<Rightarrow> string"
  ToString :: "jsval \<Rightarrow> string"

record transport_call =
  sent_url :: string
  sent_method :: "string option"
  sent_headers :: "HeadersInit option"
  sent_body :: jsval

datatype fetch_behaviour = Responds nat Response | Fails nat thrown | Hangs

datatype xhr_end = XLoad nat string string string | XNetworkError

record xhr_script =
  send_throws :: bool
  upload_events :: "(nat \<times> bool \<times> nat \<times> nat) list"
  xhr_ending :: "(nat \<times> xhr_end) option"

record world =
  fetch_of :: "nat \<Rightarrow> transport_call \<Rightarrow> fetch_behaviour"
  user_abort_of :: "nat \<Rightarrow> nat option"
  xhr_of :: "nat \<Rightarrow> transport_call \<Rightarrow> xhr_script"

text \<open>
  What a request does to its environment, in order: transport calls, the waits between
  attempts, and progress callbacks.
\<close>

datatype event =
    Fetch transport_call
  | XhrSend transport_call
  | Delay nat
  | DownloadProgress transfer_event
  | UploadProgress transfer_event

fun is_transport :: "event \<Rightarrow> bool" where
  "is_transport (Fetch c) = True"
| "is_transport (XhrSend c) = True"
| "is_transport e = False"

definition calls :: "event list \<Rightarrow> nat" where
  "calls tr = length (filter is_transport tr)"

fun is_delay :: "event \<Rightarrow> bool" where
  "is_delay (Delay ms) = True"
| "is_delay e = False"

text \<open>
  An \<^verbatim>\<open>AbortController\<close>'s signal is aborted at the earlier of the times its sources
  fire. A transport call settles as the transport behaves, unless its signal is aborted
  by then: it then rejects with an \<^verbatim>\<open>AbortError\<close> at the time of the abort.
\<close>

fun earliest :: "nat option \<Rightarrow> nat option \<Rightarrow> nat option" where
  "earliest None b = b"
| "earliest (Some a) None = Some a"
| "earliest (Some a) (Some b) = Some (min a b)"

text \<open>
  The deadline timer, \<^verbatim>\<open>!!timeout ? setTimeout(..., timeout) : null\<close>. \<^verbatim>\<open>setTimeout\<close> keeps
  its delay as a signed 32-bit integer: a delay of \<open>2^31\<close> ms or more does not fit, and
  the timer then fires at once, after 1 ms. \<^verbatim>\<open>xhr.timeout\<close> is an unsigned 32-bit
  attribute: the value is taken modulo \<open>2^32\<close>, and 0 means no timeout.
\<close>

definition timer_at :: "nat \<Rightarrow> nat option" where
  "timer_at tmo = (if tmo = 0 then None else if tmo < 2 ^ 31 then Some tmo else Some 1)"

definition xhr_timer_at :: "nat \<Rightarrow> nat option" where
  "xhr_timer_at tmo = (if tmo mod 2 ^ 32 = 0 then None else Some (tmo mod 2 ^ 32))"

text \<open>A time is before a deadline that is never reached, or that is later.\<close>

fun before :: "nat option \<Rightarrow> nat \<Rightarrow> bool" where
  "before None t = True"
| "before (Some tc) t = (t < tc)"

fun aborted_by :: "nat option \<Rightarrow> nat \<Rightarrow> bool" where
  "aborted_by None t = False"
| "aborted_by (Some a) t = (a \<le> t)"

definition abort_exception :: thrown where
  "abort_exception = Err ''AbortError'' ''The operation was aborted.''"

fun unless_aborted :: "nat option \<Rightarrow> nat \<Rightarrow> 'a \<Rightarrow> nat \<times> (thrown + 'a)" where
  "unless_aborted None t x = (t, Inr x)"
| "unless_aborted (Some ta) t x = (if ta \<le> t then (ta, Inl abort_exception) else (t, Inr x))"

fun settle :: "fetch_behaviour \<Rightarrow> nat option \<Rightarrow> (nat \<times> (thrown + Response)) option" where
  "settle (Responds t res) a = Some (unless_aborted a t res)"
| "settle (Fails t e) a =
     (case unless_aborted a t () of (t', Inl ab) \<Rightarrow> Some (t', Inl ab) | (t', Inr u) \<Rightarrow> Some (t', Inl e))"
| "settle Hangs a = (case a of None \<Rightarrow> None | Some ta \<Rightarrow> Some (ta, Inl abort_exception))"

fun signal_abort :: "world \<Rightarrow> nat \<Rightarrow> signal option \<Rightarrow> nat option" where
  "signal_abort w k (Some CallerSignal) = user_abort_of w k"
| "signal_abort w k s = None"

fun is_named :: "thrown \<Rightarrow> string \<Rightarrow> bool" where
  "is_named (Err n m) name = (n = name)"
| "is_named NonError name = False"

definition transport_call_of :: "string \<Rightarrow> RequestOptions \<Rightarrow> transport_call" where
  "transport_call_of resource opts =
     \<lparr>sent_url = resource, sent_method = method' opts, sent_headers = headers opts,
      sent_body = body opts\<rparr>"


section \<open>The request pipeline (index.ts, class CommonRequest)\<close>

text \<open>
  The constructor called without parameters, as the module does for the instance it
  exports, and the \<^verbatim>\<open>timeout\<close> getter and setter. \<^verbatim>\<open>{...this.defaults, ...opts}\<close> takes
  each field from \<open>opts\<close> where it is present, else from the defaults.
\<close>

definition no_options :: RequestOptions where
  "no_options =
     \<lparr>method' = None, headers = None, timeout = None, retries = None, retryDelay = None,
      onUploadProgress = None, onDownloadProgress = None, signal = None, params = None,
      data = JUndefined, body = JUndefined, bodyCopy = JUndefined\<rparr>"

definition CommonRequest_new :: CommonRequest where
  "CommonRequest_new =
     \<lparr>defaults = no_options\<lparr>timeout := Some 5000, retries := Some 0, retryDelay := Some 2000,
                               signal := None\<rparr>,
      priv_timeout = 5000,
      interceptors_request = InterceptorManager_new,
      interceptors_response = InterceptorManager_new\<rparr>"

definition get_timeout :: "CommonRequest \<Rightarrow> nat" where
  "get_timeout inst = priv_timeout inst"

definition set_timeout :: "nat \<Rightarrow> CommonRequest \<Rightarrow> CommonRequest" where
  "set_timeout v inst = inst\<lparr>priv_timeout := v, defaults := (defaults inst)\<lparr>timeout := Some v\<rparr>\<rparr>"

fun or_else :: "'a option \<Rightarrow> 'a option \<Rightarrow> 'a option" where
  "or_else (Some x) d = Some x"
| "or_else None d = d"

definition or_else_val :: "jsval \<Rightarrow> jsval \<Rightarrow> jsval" where
  "or_else_val v d = (if v = JUndefined then d else v)"

text \<open>\<^verbatim>\<open>options.timeout || that.timeout\<close>.\<close>

definition effective_timeout :: "CommonRequest \<Rightarrow> RequestOptions \<Rightarrow> nat" where
  "effective_timeout inst opts =
     (case timeout opts of Some t \<Rightarrow> if t \<noteq> 0 then t else get_timeout inst | None \<Rightarrow> get_timeout inst)"

definition spread :: "RequestOptions \<Rightarrow> RequestOptions \<Rightarrow> RequestOptions" where
  "spread d opts =
     \<lparr>method' = or_else (method' opts) (method' d),
      headers = or_else (headers opts) (headers d),
      timeout = or_else (timeout opts) (timeout d),
      retries = or_else (retries opts) (retries d),
      retryDelay = or_else (retryDelay opts) (retryDelay d),
      onUploadProgress = or_else (onUploadProgress opts) (onUploadProgress d),
      onDownloadProgress = or_else (onDownloadProgress opts) (onDownloadProgress d),
      signal = or_else (signal opts) (signal d),
      params = or_else (params opts) (params d),
      data = or_else_val (data opts) (data d),
      body = or_else_val (body opts) (body d),
      bodyCopy = or_else_val (bodyCopy opts) (bodyCopy d)\<rparr>"

text \<open>
  \<^verbatim>\<open>normalizeRequestOptions\<close>. \<^verbatim>\<open>contentTypeLower\<close> is read from the headers before
  the detected content type is set. For a \<^verbatim>\<open>GET\<close> with \<^verbatim>\<open>params\<close> the source also writes
  \<^verbatim>\<open>options.url\<close>, a field that nothing reads afterwards; it is left out.
\<close>

fun str_or :: "string option \<Rightarrow> string \<Rightarrow> string" where
  "str_or None d = d"
| "str_or (Some s) d = (if s = [] then d else s)"

definition shouldStringify :: "string \<Rightarrow> jsval \<Rightarrow> bool" where
  "shouldStringify contentTypeLower b =
     (str_includes contentTypeLower ''application/json'' \<and>
      b \<noteq> JUndefined \<and>
      typeof_object b \<and>
      \<not> (case b of JFormData fd \<Rightarrow> True | _ \<Rightarrow> False) \<and>
      \<not> (case b of JBlob ty bs \<Rightarrow> True | _ \<Rightarrow> False) \<and>
      \<not> (case b of JArrayBuffer bs \<Rightarrow> True | _ \<Rightarrow> False) \<and>
      \<not> (case b of JURLSearchParams ps \<Rightarrow> True | _ \<Rightarrow> False))"

definition normalizeRequestOptions :: "platform \<Rightarrow> RequestOptions \<Rightarrow> thrown + RequestOptions" where
  "normalizeRequestOptions pf opts =
     (let hdrs = normalizeHeaders (case headers opts of Some h \<Rightarrow> h | None \<Rightarrow> HeadersRecord []);
          b = data opts;
          contentTypeExisting =
            str_or (Headers_get hdrs ''Content-Type'') (str_or (Headers_get hdrs ''content-type'') []);
          contentTypeLower = toLowerCase contentTypeExisting;
          autoCt = str_or (detectContentType b) [];
          hdrs' = (if contentTypeExisting = [] \<and> autoCt \<noteq> []
                   then Headers_set hdrs ''Content-Type'' autoCt else hdrs);
          opts1 = opts\<lparr>headers := Some (HeadersObject hdrs'), body := b\<rparr>
      in case (if shouldStringify contentTypeLower b then JSON_stringify pf b else Inr b) of
           Inl e \<Rightarrow> Inl e
         | Inr b' \<Rightarrow>
             (let opts2 = opts1\<lparr>body := b'\<rparr> in
              case (if truthy b' \<and> \<not> isBodyReusable b' then structuredClone pf b' else Inr (bodyCopy opts2)) of
                Inl e \<Rightarrow> Inl e
              | Inr copy \<Rightarrow>
                  Inr (opts2\<lparr>bodyCopy := copy,
                             signal := (case signal opts2 of Some sg \<Rightarrow> Some sg | None \<Rightarrow> Some FreshSignal)\<rparr>)))"

text \<open>
  \<^verbatim>\<open>normalizeRequestOptionsUrl\<close>: for a \<^verbatim>\<open>GET\<close> with \<^verbatim>\<open>params\<close>, the entries sorted by
  key, then value, and appended as a query string.
\<close>

definition normalizeRequestOptionsUrl :: "platform \<Rightarrow> string \<Rightarrow> RequestOptions \<Rightarrow> string" where
  "normalizeRequestOptionsUrl pf u opts =
     (case (method' opts, params opts) of
        (Some m, Some ps) \<Rightarrow>
          if toUpperCase m = ''GET'' then u @ ''?'' @ URLSearchParams_toString pf (sort ps) else u
      | _ \<Rightarrow> u)"

text \<open>
  \<^verbatim>\<open>timeoutPromise\<close>: one transport call under a fresh controller, aborted by the caller's
  signal or by the timer (no timer for a falsy timeout). The \<^verbatim>\<open>catch\<close> block (the same
  text in \<^verbatim>\<open>downloadWithProgress\<close>) rewrites an \<^verbatim>\<open>AbortError\<close> by the state of the caller's
  signal at that time, and rethrows every other value as it is.
\<close>

definition classify_abort :: "thrown \<Rightarrow> bool \<Rightarrow> thrown" where
  "classify_abort err user_aborted =
     (if is_named err ''AbortError'' then
        (if user_aborted then Err ''AbortError'' ''Request aborted by user''
         else Err ''TimeoutError'' ''Request timed out'')
      else err)"

definition timeoutPromise ::
  "world \<Rightarrow> string \<Rightarrow> RequestOptions \<Rightarrow> nat \<Rightarrow> signal option \<Rightarrow> event list \<Rightarrow> event list \<times> Response promise" where
  "timeoutPromise w resource opts tmo userSignal tr =
     (let k = calls tr;
          c = transport_call_of resource opts;
          user = signal_abort w k userSignal;
          timer = timer_at tmo
      in (tr @ [Fetch c],
          case settle (fetch_of w k c) (earliest user timer) of
            None \<Rightarrow> Pending
          | Some (t, Inr res) \<Rightarrow> Fulfilled res
          | Some (t, Inl err) \<Rightarrow> Rejected (classify_abort err (aborted_by user t))))"


text \<open>
  \<^verbatim>\<open>applyRequestInterceptors\<close> and \<^verbatim>\<open>applyResponseInterceptors\<close>. A request interceptor
  returns nothing or a partial context (\<^verbatim>\<open>result.url ?? newCtx.url\<close>); the callbacks are
  taken to compute their result from their argument without changing it in place.
\<close>

definition merge_result :: "PartialContext \<Rightarrow> RequestContext \<Rightarrow> RequestContext" where
  "merge_result result newCtx =
     \<lparr>url = (case url_opt result of Some u \<Rightarrow> u | None \<Rightarrow> url newCtx),
      options = (case options_opt result of Some opts \<Rightarrow> opts | None \<Rightarrow> options newCtx)\<rparr>"

definition applyRequestInterceptors :: "CommonRequest \<Rightarrow> RequestContext \<Rightarrow> RequestContext promise" where
  "applyRequestInterceptors inst ctx =
     (if size_of (interceptors_request inst) \<le> 0 then Fulfilled ctx
      else forEachAsync (interceptors_request inst)
             (\<lambda>interceptor newCtx.
                case interceptor ctx of
                  Fulfilled None \<Rightarrow> Fulfilled newCtx
                | Fulfilled (Some result) \<Rightarrow> Fulfilled (merge_result result newCtx)
                | Rejected e \<Rightarrow> Rejected e
                | Pending \<Rightarrow> Pending)
             ctx)"

definition applyResponseInterceptors :: "CommonRequest \<Rightarrow> Response \<Rightarrow> Response promise" where
  "applyResponseInterceptors inst response =
     (if size_of (interceptors_response inst) \<le> 0 then Fulfilled response
      else forEachReverseAsync (interceptors_response inst) (\<lambda>interceptor res. interceptor res) response)"

text \<open>
  \<^verbatim>\<open>downloadWithProgress\<close>: one transport call under a controller that only the caller's
  signal aborts; the body is split with \<^verbatim>\<open>tee()\<close>, one branch is read to its end with a
  progress callback per chunk, and the other branch is returned in \<^verbatim>\<open>new Response(stream2)\<close>,
  a response made with no \<^verbatim>\<open>init\<close>: status 200, no status text, no headers.
\<close>

fun read_chunks ::
  "progress_callback \<Rightarrow> int option \<Rightarrow> nat option \<Rightarrow> (nat \<times> bytes) list \<Rightarrow> nat \<times> thrown option \<Rightarrow> nat \<Rightarrow>
   event list \<Rightarrow> event list \<times> (nat \<times> thrown) option" where
  "read_chunks cb tot a [] (tf, fin) receivedLength tr =
     (case unless_aborted a tf () of
        (t, Inl ab) \<Rightarrow> (tr, Some (t, ab))
      | (t, Inr u) \<Rightarrow> (case fin of None \<Rightarrow> (tr, None) | Some e \<Rightarrow> (tr, Some (t, e))))"
| "read_chunks cb tot a ((tc, v) # rest) (tf, fin) receivedLength tr =
     (case unless_aborted a tc () of
        (t, Inl ab) \<Rightarrow> (tr, Some (t, ab))
      | (t, Inr u) \<Rightarrow>
          (let ev = \<lparr>finished = receivedLength + length v, total = tot\<rparr> in
           case cb ev of
             Some e \<Rightarrow> (tr @ [DownloadProgress ev], Some (t, e))
           | None \<Rightarrow> read_chunks cb tot a rest (tf, fin) (receivedLength + length v) (tr @ [DownloadProgress ev])))"

definition Response_of_stream :: "body_stream \<Rightarrow> Response" where
  "Response_of_stream stream2 =
     \<lparr>status = 200, ok = True, statusText = [], res_headers = [], res_body = Some stream2\<rparr>"

definition downloadWithProgress ::
  "world \<Rightarrow> string \<Rightarrow> RequestOptions \<Rightarrow> progress_callback \<Rightarrow> event list \<Rightarrow> event list \<times> Response promise" where
  "downloadWithProgress w u opts onProgress tr =
     (let k = calls tr;
          c = transport_call_of u opts;
          user = signal_abort w k (signal opts);
          tr1 = tr @ [Fetch c]
      in case settle (fetch_of w k c) user of
           None \<Rightarrow> (tr1, Pending)
         | Some (t, Inl err) \<Rightarrow> (tr1, Rejected (classify_abort err (aborted_by user t)))
         | Some (t, Inr res) \<Rightarrow>
             (case res_body res of
                None \<Rightarrow>
                  (tr1, Rejected (classify_abort (Err ''Error'' (''HTTP error '' @ decimal (status res)))
                                   (aborted_by user t)))
              | Some stream \<Rightarrow>
                  if \<not> ok res then
                    (tr1, Rejected (classify_abort (Err ''Error'' (''HTTP error '' @ decimal (status res)))
                                     (aborted_by user t)))
                  else
                    (let contentLength = str_or (Headers_get (res_headers res) ''Content-Length'') [];
                         tot = (if contentLength \<noteq> [] then parseInt10 contentLength else None)
                     in case read_chunks onProgress tot user (chunks stream)
                               (closes_at stream, close_error stream) 0 tr1 of
                          (tr2, Some (t', e)) \<Rightarrow> (tr2, Rejected (classify_abort e (aborted_by user t')))
                        | (tr2, None) \<Rightarrow> (tr2, Fulfilled (Response_of_stream stream)))))"

text \<open>
  \<^verbatim>\<open>uploadWithProgress\<close>: one \<^verbatim>\<open>XMLHttpRequest\<close>. The promise is resolved by the
  \<^verbatim>\<open>readystatechange\<close> handler only at \<^verbatim>\<open>readyState\<close> 4 with status 200, and rejected by
  the timeout, abort and error handlers; what a handler throws is not caught by the
  promise, which then never settles. A \<^verbatim>\<open>Response\<close> made from a text body gets the
  content type of text unless its headers name one.
\<close>

definition Response_of_text :: "string \<Rightarrow> nat \<Rightarrow> string \<Rightarrow> (string \<times> string) list \<Rightarrow> Response" where
  "Response_of_text txt st stText hdrs =
     (let h = Headers_new hdrs;
          h' = (case Headers_get h ''Content-Type'' of
                  None \<Rightarrow> Headers_append h (''Content-Type'', ''text/plain;charset=UTF-8'')
                | Some ct \<Rightarrow> h)
      in \<lparr>status = st, ok = (200 \<le> st \<and> st \<le> 299), statusText = stText, res_headers = h',
          res_body = Some \<lparr>chunks = [(0, txt)], closes_at = 0, close_error = None\<rparr>\<rparr>)"

fun property :: "jsval \<Rightarrow> string \<Rightarrow> jsval" where
  "property (JObject ps) name = (case map_of ps name of Some v \<Rightarrow> v | None \<Rightarrow> JUndefined)"
| "property v name = JUndefined"

definition onreadystatechange :: "platform \<Rightarrow> nat \<Rightarrow> string \<Rightarrow> string \<Rightarrow> string \<Rightarrow> Response promise" where
  "onreadystatechange pf st stText responseText allHeaders =
     (if st = 200 then
        (case JSON_parse pf responseText of
           Inl e \<Rightarrow> Pending
         | Inr JNull \<Rightarrow> Pending
         | Inr d \<Rightarrow>
             if property d ''status'' = JNum 200
             then Fulfilled (Response_of_text responseText 200 ''OK'' (parseXHRHeaders allHeaders))
             else Fulfilled (Response_of_text (case d of JStr t \<Rightarrow> t | _ \<Rightarrow> ToString pf d) st stText
                               (parseXHRHeaders allHeaders)))
      else Pending)"

fun upload_progress_events :: "nat option \<Rightarrow> (nat \<times> bool \<times> nat \<times> nat) list \<Rightarrow> event list" where
  "upload_progress_events cutoff [] = []"
| "upload_progress_events cutoff ((t, lengthComputable, loaded, tot) # es) =
     (if before cutoff t \<and> lengthComputable
      then UploadProgress \<lparr>finished = loaded, total = Some (int tot)\<rparr> # upload_progress_events cutoff es
      else upload_progress_events cutoff es)"

definition uploadWithProgress ::
  "platform \<Rightarrow> world \<Rightarrow> CommonRequest \<Rightarrow> string \<Rightarrow> RequestOptions \<Rightarrow> progress_callback \<Rightarrow> event list \<Rightarrow>
   event list \<times> Response promise" where
  "uploadWithProgress pf w inst u opts onProgress tr =
     (case headers opts of
        Some (HeadersObject h) \<Rightarrow>
          (let xhr_timeout = effective_timeout inst opts;
               c = \<lparr>sent_url = u,
                    sent_method = Some (str_or (method' opts) ''POST''),
                    sent_headers = Some (HeadersObject (filter (\<lambda>kv. fst kv \<noteq> ''body'') h)),
                    sent_body = body opts\<rparr>;
               k = calls tr;
               script = xhr_of w k c;
               tr1 = tr @ [XhrSend c];
               user = signal_abort w k (signal opts);
               timer = xhr_timer_at xhr_timeout;
               cutoff = earliest user timer
           in if send_throws script then (tr1, Rejected (Err ''TypeError'' ''Network Error''))
              else
                (tr1 @ upload_progress_events cutoff (upload_events script),
                 case xhr_ending script of
                   None \<Rightarrow>
                     (case cutoff of
                        None \<Rightarrow> Pending
                      | Some tc \<Rightarrow>
                          if aborted_by user tc then Rejected (Err ''AbortError'' ''Request aborted by user'')
                          else Rejected (Err ''TimeoutError'' ''Request timed out''))
                 | Some (t, e) \<Rightarrow>
                     if before cutoff t then
                       (case e of
                          XLoad st stText responseText allHeaders \<Rightarrow>
                            onreadystatechange pf st stText responseText allHeaders
                        | XNetworkError \<Rightarrow> Rejected (Err ''NetworkError'' ''Network Error''))
                     else if aborted_by user (case cutoff of Some tc \<Rightarrow> tc | None \<Rightarrow> t)
                          then Rejected (Err ''AbortError'' ''Request aborted by user'')
                          else Rejected (Err ''TimeoutError'' ''Request timed out'')))
      | Some (HeadersRecord r) \<Rightarrow> (tr, Rejected (Err ''TypeError'' ''headers.forEach is not a function''))
      | None \<Rightarrow> (tr, Rejected (Err ''TypeError'' ''Cannot read properties of undefined'')))"


text \<open>
  The retry loop of \<^verbatim>\<open>request\<close> (\<^verbatim>\<open>while (attempts <= retries) { ... } throw lastError\<close>).
  The \<^verbatim>\<open>try\<close> block holds the transport call and the response interceptors; the
  \<^verbatim>\<open>catch\<close> block rethrows at once what is named \<^verbatim>\<open>AbortError\<close> or \<^verbatim>\<open>TimeoutError\<close>,
  rethrows when \<^verbatim>\<open>attempts >= retries\<close>, and else waits and goes round again.
  \<^verbatim>\<open>lastError\<close> starts as \<^verbatim>\<open>null\<close>.
\<close>

definition attempt ::
  "world \<Rightarrow> CommonRequest \<Rightarrow> string \<Rightarrow> RequestOptions \<Rightarrow> event list \<Rightarrow> event list \<times> Response promise" where
  "attempt w inst u opts tr =
     (case timeoutPromise w u opts (effective_timeout inst opts) (signal opts) tr of
        (tr1, Fulfilled res) \<Rightarrow> (tr1, applyResponseInterceptors inst res)
      | (tr1, Rejected e) \<Rightarrow> (tr1, Rejected e)
      | (tr1, Pending) \<Rightarrow> (tr1, Pending))"

text \<open>\<^verbatim>\<open>if (options.bodyCopy) { options.body = options.bodyCopy; }\<close>, at the top of every round.\<close>

definition replay_body :: "RequestOptions \<Rightarrow> RequestOptions" where
  "replay_body opts = (if truthy (bodyCopy opts) then opts\<lparr>body := bodyCopy opts\<rparr> else opts)"

definition no_retry :: "thrown \<Rightarrow> bool" where
  "no_retry error = (is_named error ''AbortError'' \<or> is_named error ''TimeoutError'')"

function retry_loop ::
  "world \<Rightarrow> CommonRequest \<Rightarrow> string \<Rightarrow> RequestOptions \<Rightarrow> int \<Rightarrow> nat \<Rightarrow> int \<Rightarrow> thrown option \<Rightarrow> event list \<Rightarrow>
   event list \<times> Response promise" where
  "retry_loop w inst u opts n retryDelayMs attempts lastError tr =
     (if attempts \<le> n then
        (let opts' = replay_body opts in
         case attempt w inst u opts' tr of
           (tr1, Fulfilled finalRes) \<Rightarrow> (tr1, Fulfilled finalRes)
         | (tr1, Pending) \<Rightarrow> (tr1, Pending)
         | (tr1, Rejected error) \<Rightarrow>
             if no_retry error then (tr1, Rejected error)
             else if attempts \<ge> n then (tr1, Rejected error)
             else retry_loop w inst u opts' n retryDelayMs (attempts + 1) (Some error)
                    (tr1 @ [Delay retryDelayMs]))
      else (tr, Rejected (case lastError of Some e \<Rightarrow> e | None \<Rightarrow> NonError)))"
  by pat_completeness auto
termination
  by (relation "measure (\<lambda>(w, inst, u, opts, n, d, attempts, lastError, tr). nat (n + 1 - attempts))") auto

declare retry_loop.simps [simp del]

text \<open>
  \<^verbatim>\<open>request\<close>: normalize, apply the request interceptors, then dispatch on the progress
  callbacks of the resulting options: the download path, else the upload path, else the
  retry loop. The two progress paths return their promise as it is.
\<close>

definition dispatch ::
  "platform \<Rightarrow> world \<Rightarrow> CommonRequest \<Rightarrow> RequestContext \<Rightarrow> event list \<times> Response promise" where
  "dispatch pf w inst ctx =
     (case onDownloadProgress (options ctx) of
        Some onDownload \<Rightarrow> downloadWithProgress w (url ctx) (options ctx) onDownload []
      | None \<Rightarrow>
          (case onUploadProgress (options ctx) of
             Some onUpload \<Rightarrow> uploadWithProgress pf w inst (url ctx) (options ctx) onUpload []
           | None \<Rightarrow>
               retry_loop w inst (url ctx) (options ctx)
                 (case retries (options ctx) of Some n \<Rightarrow> n | None \<Rightarrow> 0)
                 (case retryDelay (options ctx) of Some d \<Rightarrow> d | None \<Rightarrow> 2000)
                 0 None []))"

definition request ::
  "platform \<Rightarrow> world \<Rightarrow> CommonRequest \<Rightarrow> string \<Rightarrow> RequestOptions \<Rightarrow> event list \<times> Response promise" where
  "request pf w inst urlStr opts =
     (case normalizeRequestOptions pf (spread (defaults inst) opts) of
        Inl e \<Rightarrow> ([], Rejected e)
      | Inr normalized \<Rightarrow>
          (case applyRequestInterceptors inst
                  \<lparr>url = normalizeRequestOptionsUrl pf urlStr opts, options = normalized\<rparr> of
             Fulfilled ctx \<Rightarrow> dispatch pf w inst ctx
           | Rejected e \<Rightarrow> ([], Rejected e)
           | Pending \<Rightarrow> ([], Pending)))"


section \<open>Reference definitions and sample environments\<close>

text \<open>
  Response interceptors applied one after the other, each to the response the one before
  it returned.
\<close>

fun apply_in_order :: "ResInterceptor list \<Rightarrow> Response \<Rightarrow> Response promise" where
  "apply_in_order [] res = Fulfilled res"
| "apply_in_order (f # fs) res =
     (case f res of
        Fulfilled res' \<Rightarrow> apply_in_order fs res'
      | Rejected e \<Rightarrow> Rejected e
      | Pending \<Rightarrow> Pending)"


text \<open>
  The interceptor chain as the specification words it: the callbacks run in order, each
  on the in-flight context as the callbacks before it have replaced it.
\<close>

fun chain_as_specified :: "ReqInterceptor list \<Rightarrow> RequestContext \<Rightarrow> RequestContext promise" where
  "chain_as_specified [] c = Fulfilled c"
| "chain_as_specified (f # fs) c =
     (case f c of
        Fulfilled None \<Rightarrow> chain_as_specified fs c
      | Fulfilled (Some result) \<Rightarrow> chain_as_specified fs (merge_result result c)
      | Rejected e \<Rightarrow> Rejected e
      | Pending \<Rightarrow> Pending)"

text \<open>The number of \<^verbatim>\<open>use\<close> calls in a call sequence.\<close>

fun is_use :: "'a registry_call \<Rightarrow> bool" where
  "is_use (Use f) = True"
| "is_use (Eject i) = False"

definition count_uses :: "'a registry_call list \<Rightarrow> nat" where
  "count_uses cs = length (filter is_use cs)"

text \<open>
  Sample environments: a platform whose built-ins return fixed values, transports that
  always respond with status 200, always fail with a network error, never answer, or
  respond with a partial-content body, and a caller who aborts 3 ms into every call.
\<close>

definition sample_platform :: platform where
  "sample_platform =
     \<lparr>JSON_stringify = (\<lambda>v. Inr (JStr ''{}'')), JSON_parse = (\<lambda>t. Inr JNull),
      structuredClone = (\<lambda>v. Inr v), URLSearchParams_toString = (\<lambda>ps. []),
      ToString = (\<lambda>v. ''[object Object]'')\<rparr>"

definition ok_response :: Response where
  "ok_response = \<lparr>status = 200, ok = True, statusText = ''OK'', res_headers = [], res_body = None\<rparr>"

definition partial_response :: Response where
  "partial_response =
     \<lparr>status = 206, ok = True, statusText = ''Partial Content'',
      res_headers = [(''content-length'', ''3''), (''content-type'', ''text/plain'')],
      res_body = Some \<lparr>chunks = [(5, ''ab''), (6, ''c'')], closes_at = 7, close_error = None\<rparr>\<rparr>"

definition network_error :: thrown where
  "network_error = Err ''TypeError'' ''Failed to fetch''"

definition quiet_xhr :: xhr_script where
  "quiet_xhr = \<lparr>send_throws = False, upload_events = [], xhr_ending = Some (10, XNetworkError)\<rparr>"

definition world_ok :: world where
  "world_ok = \<lparr>fetch_of = (\<lambda>k c. Responds 10 ok_response), user_abort_of = (\<lambda>k. None),
                xhr_of = (\<lambda>k c. quiet_xhr)\<rparr>"

definition world_down :: world where
  "world_down = \<lparr>fetch_of = (\<lambda>k c. Fails 10 network_error), user_abort_of = (\<lambda>k. None),
                  xhr_of = (\<lambda>k c. quiet_xhr)\<rparr>"

definition world_silent :: world where
  "world_silent = \<lparr>fetch_of = (\<lambda>k c. Hangs), user_abort_of = (\<lambda>k. None), xhr_of = (\<lambda>k c. quiet_xhr)\<rparr>"

definition world_cancelled :: world where
  "world_cancelled = \<lparr>fetch_of = (\<lambda>k c. Responds 10 ok_response), user_abort_of = (\<lambda>k. Some 3),
                       xhr_of = (\<lambda>k c. quiet_xhr)\<rparr>"

definition world_partial :: world where
  "world_partial = \<lparr>fetch_of = (\<lambda>k c. Responds 4 partial_response), user_abort_of = (\<lambda>k. None),
                     xhr_of = (\<lambda>k c. quiet_xhr)\<rparr>"

text \<open>
  Sample callbacks: request interceptors that put a base url in front of the url they
  are given, and a query behind it, and the one of the repository's test that returns
  \<^verbatim>\<open>{options: {...options, headers: {...options.headers, 'X-Test-Header-2': ...}}}\<close> (the
  spread of a \<^verbatim>\<open>Headers\<close> object has no properties, so the headers become a plain object
  with the one new entry); response interceptors that fail as
  \<^verbatim>\<open>response.json()\<close> does on a body that is not JSON, and that answer every response
  with a fixed one; a progress callback that only returns.
\<close>

definition add_base :: ReqInterceptor where
  "add_base c = Fulfilled (Some \<lparr>url_opt = Some (''https://api.test'' @ url c), options_opt = Some (options c)\<rparr>)"

definition add_query :: ReqInterceptor where
  "add_query c = Fulfilled (Some \<lparr>url_opt = Some (url c @ ''?v=1''), options_opt = None\<rparr>)"

definition failing_json :: ResInterceptor where
  "failing_json res = Rejected (Err ''SyntaxError'' ''Unexpected end of JSON input'')"

definition teapot :: Response where
  "teapot = \<lparr>status = 418, ok = False, statusText = ''teapot'', res_headers = [], res_body = None\<rparr>"

definition always_teapot :: ResInterceptor where
  "always_teapot res = Fulfilled teapot"

definition test_header_interceptor :: ReqInterceptor where
  "test_header_interceptor c =
     Fulfilled (Some \<lparr>url_opt = None,
       options_opt = Some ((options c)\<lparr>headers := Some (HeadersRecord
         ((case headers (options c) of Some (HeadersRecord r) \<Rightarrow> r | _ \<Rightarrow> []) @
          [(''X-Test-Header-2'', ''interceptors.request.2'')]))\<rparr>)\<rparr>)"

definition silent_progress :: progress_callback where
  "silent_progress ev = None"

definition with_request_interceptors :: "ReqInterceptor list \<Rightarrow> CommonRequest" where
  "with_request_interceptors fs =
     CommonRequest_new\<lparr>interceptors_request := snd (run_calls (map Use fs) InterceptorManager_new)\<rparr>"

definition with_response_interceptors :: "ResInterceptor list \<Rightarrow> CommonRequest" where
  "with_response_interceptors fs =
     CommonRequest_new\<lparr>interceptors_response := snd (run_calls (map Use fs) InterceptorManager_new)\<rparr>"

text \<open>Sample requests: a download and an upload with three retries allowed, and a text body.\<close>

definition download_ctx :: RequestContext where
  "download_ctx =
     \<lparr>url = ''/file'',
      options = no_options\<lparr>headers := Some (HeadersObject []), retries := Some 3, retryDelay := Some 50,
                            onDownloadProgress := Some silent_progress\<rparr>\<rparr>"

definition upload_ctx :: RequestContext where
  "upload_ctx =
     \<lparr>url = ''/upload'',
      options = no_options\<lparr>headers := Some (HeadersObject []), retries := Some 3, retryDelay := Some 50,
                            onUploadProgress := Some silent_progress, body := JStr ''abc''\<rparr>\<rparr>"

definition text_request :: RequestOptions where
  "text_request = no_options\<lparr>data := JStr ''hi''\<rparr>"

definition text_normalized :: RequestOptions where
  "text_normalized =
     no_options\<lparr>headers := Some (HeadersObject [(''content-type'', ''text/plain;charset=UTF-8'')]),
                 signal := Some FreshSignal, data := JStr ''hi'', body := JStr ''hi''\<rparr>"

section \<open>The registry: ids, size and traversal order\<close>

lemma update_fresh: "k \<notin> fst ` set ps \<Longrightarrow> AList.update k v ps = ps @ [(k, v)]"
  by (induction ps) auto

lemma delete_filter: "AList.delete k ps = filter (\<lambda>p. fst p \<noteq> k) ps"
  by (induction ps) auto

lemma surviving_bounds: "p \<in> set (surviving cs n) \<Longrightarrow> n \<le> fst p \<and> fst p < n + count_uses cs"
  by (induction cs n arbitrary: p rule: surviving.induct) (fastforce simp: count_uses_def split: if_splits)+

lemma surviving_sorted: "sorted_wrt (<) (map fst (surviving cs n))"
proof (induction cs n rule: surviving.induct)
  case (2 f cs n)
  have "\<forall>p\<in>set (surviving cs (Suc n)). n < fst p"
    using surviving_bounds[of _ cs "Suc n"] by fastforce
  with 2 show ?case by (auto simp: sorted_wrt_append)
qed simp_all

text \<open>
  The state after any call sequence, from any state whose table holds ids below the
  next id: the ids handed out count up from the next id, and the table is what survives
  of the old entries followed by the surviving new registrations.
\<close>

lemma run_calls_general:
  assumes "\<forall>p\<in>set ps. fst p < n"
  shows "run_calls cs \<lparr>interceptors = ps, interceptorIds = map fst ps, nextId = n\<rparr> =
     ([n ..< n + count_uses cs],
      \<lparr>interceptors = filter (\<lambda>p. \<not> list_ex (is_eject_of (fst p)) cs) ps @ surviving cs n,
       interceptorIds = map fst (filter (\<lambda>p. \<not> list_ex (is_eject_of (fst p)) cs) ps @ surviving cs n),
       nextId = n + count_uses cs\<rparr>)"
  using assms
proof (induction cs arbitrary: ps n)
  case Nil
  then show ?case by (simp add: count_uses_def)
next
  case (Cons c cs)
  show ?case
  proof (cases c)
    case (Use f)
    have fresh: "n \<notin> fst ` set ps" using Cons.prems by auto
    have u: "use f \<lparr>interceptors = ps, interceptorIds = map fst ps, nextId = n\<rparr> =
        (n, \<lparr>interceptors = ps @ [(n, f)], interceptorIds = map fst (ps @ [(n, f)]), nextId = Suc n\<rparr>)"
      by (simp add: use_def update_fresh[OF fresh])
    have b: "\<forall>p\<in>set (ps @ [(n, f)]). fst p < Suc n" using Cons.prems by auto
    have cu: "count_uses (c # cs) = Suc (count_uses cs)" by (simp add: count_uses_def Use)
    show ?thesis
      unfolding Use run_calls.simps u
      by (simp add: Cons.IH[OF b] cu[unfolded Use] del: upt_Suc map_append)
         (simp add: upt_conv_Cons)
  next
    case (Eject i)
    have e: "eject i \<lparr>interceptors = ps, interceptorIds = map fst ps, nextId = n\<rparr> =
        \<lparr>interceptors = filter (\<lambda>p. fst p \<noteq> i) ps,
         interceptorIds = map fst (filter (\<lambda>p. fst p \<noteq> i) ps), nextId = n\<rparr>"
      by (simp add: eject_def delete_filter filter_map comp_def)
    have b: "\<forall>p\<in>set (filter (\<lambda>p. fst p \<noteq> i) ps). fst p < n" using Cons.prems by auto
    have cu: "count_uses (c # cs) = count_uses cs" by (simp add: count_uses_def Eject)
    have f: "filter (\<lambda>p. \<not> list_ex (is_eject_of (fst p)) cs) (filter (\<lambda>p. fst p \<noteq> i) ps)
           = filter (\<lambda>p. \<not> list_ex (is_eject_of (fst p)) (Eject i # cs)) ps"
      by (induction ps) auto
    show ?thesis
      unfolding Eject run_calls.simps e
      by (simp only: Cons.IH[OF b] cu[unfolded Eject] f surviving.simps)
  qed
qed

lemma run_calls_new:
  "run_calls cs InterceptorManager_new =
     ([0 ..< count_uses cs],
      \<lparr>interceptors = surviving cs 0, interceptorIds = map fst (surviving cs 0),
       nextId = count_uses cs\<rparr>)"
  using run_calls_general[of "[]" 0 cs] by (simp add: InterceptorManager_new_def)

lemma forEach_collect:
  "\<forall>q\<in>set qs. map_of tbl (fst q) = Some (snd q) \<Longrightarrow>
   forEach_ids tbl (\<lambda>f acc. Fulfilled (acc @ [f])) (map fst qs) acc = Fulfilled (acc @ map snd qs)"
  by (induction qs arbitrary: acc) auto

text \<open>
  Claim C9. After any sequence of \<^verbatim>\<open>use\<close>/\<^verbatim>\<open>eject\<close> calls on a new registry: the ids
  that the \<^verbatim>\<open>use\<close> calls returned are \<open>0, 1, 2, ...\<close> in call order (unique, increasing,
  never handed out twice, whatever was ejected in between); \<^verbatim>\<open>size()\<close> is the number of
  registrations that no later call ejected; the id array holds exactly their ids, in
  ascending order; and a forward traversal visits exactly their callbacks, in that
  order.
\<close>

theorem C9_registry:
  assumes "run_calls cs InterceptorManager_new = (ids, m)"
  shows "ids = [0..<length ids] \<and>
         size_of m = length (surviving cs 0) \<and>
         interceptorIds m = map fst (surviving cs 0) \<and>
         sorted_wrt (<) (interceptorIds m) \<and>
         visited_forward m = Fulfilled (map snd (surviving cs 0))"
proof -
  have ids: "ids = [0..<count_uses cs]"
    and m: "m = \<lparr>interceptors = surviving cs 0, interceptorIds = map fst (surviving cs 0),
                 nextId = count_uses cs\<rparr>"
    using assms run_calls_new[of cs] by auto
  have d: "distinct (map fst (surviving cs 0))"
    using surviving_sorted[of cs 0] by (simp add: strict_sorted_iff)
  have v: "visited_forward m = Fulfilled (map snd (surviving cs 0))"
    unfolding visited_forward_def forEachAsync_def m
    using forEach_collect[of "surviving cs 0" "surviving cs 0" "[]"] d by simp
  show ?thesis using ids m v surviving_sorted[of cs 0] by (simp add: size_of_def)
qed

theorem C9_registry_witness:
  "run_calls [Use (10::nat), Use 20, Eject 0, Use 30, Eject 7, Eject 0] InterceptorManager_new =
     ([0, 1, 2], \<lparr>interceptors = [(1, 20), (2, 30)], interceptorIds = [1, 2], nextId = 3\<rparr>) \<and>
   size_of \<lparr>interceptors = [(1, 20), (2, 30::nat)], interceptorIds = [1, 2], nextId = 3\<rparr> = 2 \<and>
   visited_forward \<lparr>interceptors = [(1, 20), (2, 30::nat)], interceptorIds = [1, 2], nextId = 3\<rparr> =
     Fulfilled [20, 30]"
proof -
  have r: "run_calls [Use (10::nat), Use 20, Eject 0, Use 30, Eject 7, Eject 0] InterceptorManager_new =
     ([0, 1, 2], \<lparr>interceptors = [(1, 20), (2, 30)], interceptorIds = [1, 2], nextId = 3\<rparr>)"
    by (simp add: InterceptorManager_new_def use_def eject_def)
  show ?thesis using r C9_registry[OF r] by simp
qed


section \<open>The retry loop\<close>

text \<open>Facts for evaluating the pipeline on the sample inputs.\<close>

lemma lower_header_names:
  "toLowerCase ''Content-Type'' = ''content-type''"
  "toLowerCase ''content-type'' = ''content-type''"
  "toLowerCase ''Content-Length'' = ''content-length''"
  "toLowerCase [] = []"
  by code_simp+

lemma upper_methods:
  "toUpperCase ''GET'' = ''GET''"
  "toUpperCase ''POST'' = ''POST''"
  by code_simp+

lemmas registry_eval = use_def eject_def InterceptorManager_new_def size_of_def
  forEachAsync_def forEachReverseAsync_def

lemmas pipeline_eval = request_def dispatch_def normalizeRequestOptions_def normalizeRequestOptionsUrl_def
  spread_def no_options_def CommonRequest_new_def or_else_val_def shouldStringify_def
  Headers_get_def Headers_set_def Headers_new_def Headers_append_def lower_header_names upper_methods
  applyRequestInterceptors_def applyResponseInterceptors_def attempt_def
  timeoutPromise_def effective_timeout_def get_timeout_def timer_at_def xhr_timer_at_def classify_abort_def
  transport_call_of_def replay_body_def no_retry_def calls_def abort_exception_def merge_result_def

lemma parseInt10_three: "parseInt10 ''3'' = Some 3"
  by code_simp

lemmas sample_eval = sample_platform_def ok_response_def partial_response_def network_error_def
  quiet_xhr_def world_ok_def world_down_def world_silent_def world_cancelled_def world_partial_def
  add_base_def add_query_def failing_json_def teapot_def always_teapot_def silent_progress_def
  with_request_interceptors_def with_response_interceptors_def download_ctx_def upload_ctx_def
  test_header_interceptor_def
  text_request_def text_normalized_def parseInt10_three

lemma replay_body_idem: "replay_body (replay_body opts) = replay_body opts"
  by (simp add: replay_body_def)

lemma replay_body_fields:
  "signal (replay_body opts) = signal opts"
  "effective_timeout inst (replay_body opts) = effective_timeout inst opts"
  by (simp_all add: replay_body_def effective_timeout_def)

lemma calls_append: "calls (tr @ tr') = calls tr + calls tr'"
  by (simp add: calls_def)

lemma unless_aborted_no: "\<not> aborted_by a t \<Longrightarrow> unless_aborted a t x = (t, Inr x)"
  by (cases a) auto

lemma unless_aborted_yes:
  "aborted_by a t \<Longrightarrow> \<exists>ta. a = Some ta \<and> ta \<le> t \<and> unless_aborted a t x = (ta, Inl abort_exception)"
  by (cases a) auto

lemma attempt_trace: "fst (attempt w inst u opts tr) = tr @ [Fetch (transport_call_of u opts)]"
  by (simp add: attempt_def timeoutPromise_def Let_def split: prod.splits promise.splits option.splits sum.splits)

lemma retry_loop_step:
  "retry_loop w inst u opts n d a le tr =
     (if a \<le> n then
        (case attempt w inst u (replay_body opts) tr of
           (tr1, Fulfilled finalRes) \<Rightarrow> (tr1, Fulfilled finalRes)
         | (tr1, Pending) \<Rightarrow> (tr1, Pending)
         | (tr1, Rejected error) \<Rightarrow>
             if no_retry error then (tr1, Rejected error)
             else if a \<ge> n then (tr1, Rejected error)
             else retry_loop w inst u (replay_body opts) n d (a + 1) (Some error) (tr1 @ [Delay d]))
      else (tr, Rejected (case le of Some e \<Rightarrow> e | None \<Rightarrow> NonError)))"
  by (subst retry_loop.simps) (simp add: Let_def)

lemma timeoutPromise_fails:
  assumes "fetch_of w (calls tr) (transport_call_of u opts) = Fails t e"
    and "\<not> aborted_by (earliest (signal_abort w (calls tr) sg) (timer_at tmo)) t"
    and "\<not> is_named e ''AbortError''"
  shows "timeoutPromise w u opts tmo sg tr = (tr @ [Fetch (transport_call_of u opts)], Rejected e)"
  using assms by (simp add: timeoutPromise_def Let_def classify_abort_def unless_aborted_no)

lemma attempt_fails:
  assumes "fetch_of w (calls tr) (transport_call_of u opts) = Fails t e"
    and "\<not> aborted_by (earliest (signal_abort w (calls tr) (signal opts)) (timer_at (effective_timeout inst opts))) t"
    and "\<not> is_named e ''AbortError''"
  shows "attempt w inst u opts tr = (tr @ [Fetch (transport_call_of u opts)], Rejected e)"
  using timeoutPromise_fails[OF assms] by (simp add: attempt_def)


lemma signal_abort_none: "user_abort_of w k = None \<Longrightarrow> signal_abort w k s = None"
  by (cases "(w, k, s)" rule: signal_abort.cases) auto

lemma not_aborted_plain:
  "before (timer_at tmo) t \<Longrightarrow> \<not> aborted_by (earliest None (timer_at tmo)) t"
  by (cases "timer_at tmo") auto

lemma all_fail_general:
  assumes f: "\<And>k c. fetch_of w k c = Fails (ts k) (errs k)"
    and r: "\<And>k. \<not> no_retry (errs k)"
    and ua: "\<And>k. user_abort_of w k = None"
    and an: "a \<le> n"
    and tm: "\<And>k. before (timer_at (effective_timeout inst opts)) (ts k)"
  shows "\<exists>tr'. retry_loop w inst u opts n d a le tr = (tr', Rejected (errs (calls tr + nat (n - a)))) \<and>
           calls tr' = calls tr + nat (n - a) + 1 \<and>
           length (filter is_delay tr') = length (filter is_delay tr) + nat (n - a)"
  using an tm
proof (induction "nat (n - a)" arbitrary: a opts le tr)
  case 0
  then have an: "a = n" by simp
  have na: "\<not> aborted_by (earliest (signal_abort w (calls tr) (signal (replay_body opts)))
              (timer_at (effective_timeout inst (replay_body opts)))) (ts (calls tr))"
    using not_aborted_plain[OF "0.prems"(2)[of "calls tr"]]
    by (simp add: signal_abort_none[OF ua] replay_body_fields)
  have nn: "\<not> is_named (errs (calls tr)) ''AbortError''" using r[of "calls tr"] by (simp add: no_retry_def)
  have at: "attempt w inst u (replay_body opts) tr =
      (tr @ [Fetch (transport_call_of u (replay_body opts))], Rejected (errs (calls tr)))"
    by (rule attempt_fails[OF f na nn])
  show ?case
    by (subst retry_loop_step) (simp add: at an r calls_append calls_def)
next
  case (Suc m)
  then have lt: "a < n" and m: "m = nat (n - (a + 1))" by auto
  have na: "\<not> aborted_by (earliest (signal_abort w (calls tr) (signal (replay_body opts)))
              (timer_at (effective_timeout inst (replay_body opts)))) (ts (calls tr))"
    using not_aborted_plain[OF Suc.prems(2)[of "calls tr"]]
    by (simp add: signal_abort_none[OF ua] replay_body_fields)
  have nn: "\<not> is_named (errs (calls tr)) ''AbortError''" using r[of "calls tr"] by (simp add: no_retry_def)
  have at: "attempt w inst u (replay_body opts) tr =
      (tr @ [Fetch (transport_call_of u (replay_body opts))], Rejected (errs (calls tr)))"
    by (rule attempt_fails[OF f na nn])
  have step: "retry_loop w inst u opts n d a le tr =
      retry_loop w inst u (replay_body opts) n d (a + 1) (Some (errs (calls tr)))
        ((tr @ [Fetch (transport_call_of u (replay_body opts))]) @ [Delay d])"
    using lt by (subst retry_loop_step) (simp add: at r)
  have le': "a + 1 \<le> n" using lt by simp
  have tm': "\<And>k. before (timer_at (effective_timeout inst (replay_body opts))) (ts k)"
    using Suc.prems(2) by (simp add: replay_body_fields)
  obtain tr' where ih: "retry_loop w inst u (replay_body opts) n d (a + 1) (Some (errs (calls tr)))
        ((tr @ [Fetch (transport_call_of u (replay_body opts))]) @ [Delay d]) =
        (tr', Rejected (errs (calls ((tr @ [Fetch (transport_call_of u (replay_body opts))]) @ [Delay d]) + nat (n - (a + 1)))))"
     and c: "calls tr' = calls ((tr @ [Fetch (transport_call_of u (replay_body opts))]) @ [Delay d]) + nat (n - (a + 1)) + 1"
     and dl: "length (filter is_delay tr') = length (filter is_delay ((tr @ [Fetch (transport_call_of u (replay_body opts))]) @ [Delay d])) + nat (n - (a + 1))"
    using Suc.hyps(1)[OF m le' tm'] by blast
  have idx: "calls ((tr @ [Fetch (transport_call_of u (replay_body opts))]) @ [Delay d]) + nat (n - (a + 1)) = calls tr + nat (n - a)"
    using lt by (simp add: calls_def nat_diff_distrib)
  have idx2: "Suc (nat (n - (a + 1))) = nat (n - a)" using lt by simp
  have ih': "retry_loop w inst u opts n d a le tr = (tr', Rejected (errs (calls tr + nat (n - a))))"
    unfolding step ih idx ..
  have c': "calls tr' = calls tr + nat (n - a) + 1" unfolding c idx ..
  have dl': "length (filter is_delay tr') = length (filter is_delay tr) + nat (n - a)"
    unfolding dl using idx2 by simp
  show ?case using ih' c' dl' by blast
qed

lemma retry_loop_success:
  assumes "a \<le> n"
    and "timeoutPromise w u (replay_body opts) (effective_timeout inst opts) (signal opts) tr = (tr1, Fulfilled res)"
    and "applyResponseInterceptors inst res = Fulfilled fin"
  shows "retry_loop w inst u opts n d a le tr = (tr1, Fulfilled fin) \<and> calls tr1 = calls tr + 1"
proof -
  have at: "attempt w inst u (replay_body opts) tr = (tr1, Fulfilled fin)"
    using assms(2,3) by (simp add: attempt_def replay_body_fields)
  have "tr1 = tr @ [Fetch (transport_call_of u (replay_body opts))]"
    using attempt_trace[of w inst u "replay_body opts" tr] at by simp
  then show ?thesis using assms(1) at by (subst retry_loop_step) (simp add: calls_def)
qed





lemma retry_loop_retry:
  assumes "a < n"
    and "timeoutPromise w u (replay_body opts) (effective_timeout inst opts) (signal opts) tr = (tr1, Rejected e)"
    and "\<not> no_retry e"
  shows "retry_loop w inst u opts n d a le tr =
         retry_loop w inst u (replay_body opts) n d (a + 1) (Some e) (tr1 @ [Delay d])"
proof -
  have at: "attempt w inst u (replay_body opts) tr = (tr1, Rejected e)"
    using assms(2) by (simp add: attempt_def replay_body_fields)
  show ?thesis using assms(1,3) at by (subst retry_loop_step) simp
qed

lemma retry_loop_trace_extends:
  "\<exists>rest. fst (retry_loop w inst u opts n d a le tr) = tr @ rest \<and>
          set rest \<subseteq> {Fetch (transport_call_of u (replay_body opts)), Delay d}"
proof (induction "nat (n + 1 - a)" arbitrary: a opts le tr)
  case 0
  then have "\<not> a \<le> n" by simp
  then show ?case by (subst retry_loop_step) simp
next
  case (Suc m)
  then have an: "a \<le> n" and m: "m = nat (n + 1 - (a + 1))" by auto
  let ?c = "Fetch (transport_call_of u (replay_body opts))"
  obtain p where at: "attempt w inst u (replay_body opts) tr = (tr @ [?c], p)"
    using attempt_trace[of w inst u "replay_body opts" tr] by (cases "attempt w inst u (replay_body opts) tr") auto
  show ?case
  proof (cases p)
    case (Fulfilled r)
    then show ?thesis using an at by (subst retry_loop_step) simp
  next
    case Pending
    then show ?thesis using an at by (subst retry_loop_step) simp
  next
    case (Rejected e)
    show ?thesis
    proof (cases "no_retry e \<or> a \<ge> n")
      case True
      then show ?thesis using an at Rejected by (subst retry_loop_step) auto
    next
      case False
      obtain rest where r: "fst (retry_loop w inst u (replay_body opts) n d (a + 1) (Some e) ((tr @ [?c]) @ [Delay d]))
          = ((tr @ [?c]) @ [Delay d]) @ rest"
        and s: "set rest \<subseteq> {Fetch (transport_call_of u (replay_body (replay_body opts))), Delay d}"
        using Suc.hyps(1)[OF m] by blast
      have "fst (retry_loop w inst u opts n d a le tr) = tr @ (?c # Delay d # rest)"
        using an at Rejected False r by (subst retry_loop_step) simp
      moreover have "set (?c # Delay d # rest) \<subseteq> {?c, Delay d}"
        using s by (auto simp: replay_body_idem)
      ultimately show ?thesis by blast
    qed
  qed
qed

lemma retry_loop_first_call:
  assumes "a \<le> n"
  shows "\<exists>rest. fst (retry_loop w inst u opts n d a le tr) = tr @ Fetch (transport_call_of u (replay_body opts)) # rest"
proof -
  let ?c = "Fetch (transport_call_of u (replay_body opts))"
  obtain p where at: "attempt w inst u (replay_body opts) tr = (tr @ [?c], p)"
    using attempt_trace[of w inst u "replay_body opts" tr] by (cases "attempt w inst u (replay_body opts) tr") auto
  show ?thesis
  proof (cases p)
    case (Fulfilled r)
    then show ?thesis using assms at by (subst retry_loop_step) simp
  next
    case Pending
    then show ?thesis using assms at by (subst retry_loop_step) simp
  next
    case (Rejected e)
    show ?thesis
    proof (cases "no_retry e \<or> a \<ge> n")
      case True
      then show ?thesis using assms at Rejected by (subst retry_loop_step) auto
    next
      case False
      obtain rest where r: "fst (retry_loop w inst u (replay_body opts) n d (a + 1) (Some e) ((tr @ [?c]) @ [Delay d]))
          = ((tr @ [?c]) @ [Delay d]) @ rest"
        using retry_loop_trace_extends by blast
      have "fst (retry_loop w inst u opts n d a le tr) = tr @ ?c # (Delay d # rest)"
        using assms at Rejected False r by (subst retry_loop_step) simp
      then show ?thesis by blast
    qed
  qed
qed

lemma retry_loop_rejection_source:
  assumes "a \<le> n" "snd (retry_loop w inst u opts n d a le tr) = Rejected e"
  shows "\<exists>tr0. snd (attempt w inst u (replay_body opts) tr0) = Rejected e"
  using assms
proof (induction "nat (n - a)" arbitrary: a opts le tr)
  case 0
  then have an: "a = n" by simp
  show ?case using "0.prems"(2) an
    by (subst (asm) retry_loop_step)
       (auto split: prod.splits promise.splits if_splits intro: exI[of _ tr])
next
  case (Suc m)
  then have lt: "a < n" and m: "m = nat (n - (a + 1))" by auto
  show ?case
  proof (cases "attempt w inst u (replay_body opts) tr")
    case (Pair tr1 p)
    show ?thesis
    proof (cases p)
      case (Rejected e')
      show ?thesis
      proof (cases "no_retry e'")
        case True
        then have "e' = e" using Suc.prems(2) lt Pair Rejected
          by (subst (asm) retry_loop_step) simp
        then have "snd (attempt w inst u (replay_body opts) tr) = Rejected e"
          using Pair Rejected by simp
        then show ?thesis by blast
      next
        case False
        have "snd (retry_loop w inst u (replay_body opts) n d (a + 1) (Some e') (tr1 @ [Delay d])) = Rejected e"
          using Suc.prems(2) lt Pair Rejected False by (subst (asm) retry_loop_step) simp
        from Suc.hyps(1)[OF m _ this] lt show ?thesis by (simp add: replay_body_idem)
      qed
    next
      case (Fulfilled r)
      then show ?thesis using Suc.prems(2) lt Pair by (subst (asm) retry_loop_step) simp
    next
      case Pending
      then show ?thesis using Suc.prems(2) lt Pair by (subst (asm) retry_loop_step) simp
    qed
  qed
qed

section \<open>Claims about retrying\<close>

text \<open>
  Claim C3, as the code has it. For every \<^verbatim>\<open>retries\<close> value \<open>n \<ge> 0\<close>: against a transport
  that fails every call (before the deadline timer fires, the caller never aborting) with
  an error named neither \<^verbatim>\<open>AbortError\<close> nor \<^verbatim>\<open>TimeoutError\<close>, the loop makes exactly
  \<open>n + 1\<close> transport calls, waits \<open>n\<close> times, and rejects with the error of the last call.
  In any round that the budget allows, a transport response that passes the response
  interceptors is returned, as the interceptors leave it, with that one further transport
  call and no more. And since the \<^verbatim>\<open>try\<close> block also holds the response interceptors:
  when the transport responds and a response interceptor throws an error named neither
  \<^verbatim>\<open>AbortError\<close> nor \<^verbatim>\<open>TimeoutError\<close> while attempts remain, the loop waits and calls the
  transport again.
\<close>

theorem C3_retry_count:
  "(0 \<le> n \<and> (\<forall>k c. fetch_of w k c = Fails (ts k) (errs k)) \<and> (\<forall>k. \<not> no_retry (errs k)) \<and>
    (\<forall>k. user_abort_of w k = None) \<and>
    (\<forall>k. before (timer_at (effective_timeout inst opts)) (ts k))
    \<longrightarrow> (\<exists>tr. retry_loop w inst u opts n d 0 None [] = (tr, Rejected (errs (nat n))) \<and>
              calls tr = nat n + 1 \<and> length (filter is_delay tr) = nat n))
   \<and> (a \<le> n \<and>
       timeoutPromise w u (replay_body opts) (effective_timeout inst opts) (signal opts) tr0 = (tr1, Fulfilled res) \<and>
       applyResponseInterceptors inst res = Fulfilled fin
    \<longrightarrow> retry_loop w inst u opts n d a le tr0 = (tr1, Fulfilled fin) \<and> calls tr1 = calls tr0 + 1)
   \<and> (a < n \<and>
       timeoutPromise w u (replay_body opts) (effective_timeout inst opts) (signal opts) tr0 = (tr1, Fulfilled res) \<and>
       applyResponseInterceptors inst res = Rejected e \<and> \<not> no_retry e
    \<longrightarrow> (\<exists>rest. fst (retry_loop w inst u opts n d a le tr0) =
                  tr1 @ Delay d # Fetch (transport_call_of u (replay_body opts)) # rest))"
proof (intro conjI impI)
  assume h: "0 \<le> n \<and> (\<forall>k c. fetch_of w k c = Fails (ts k) (errs k)) \<and> (\<forall>k. \<not> no_retry (errs k)) \<and>
    (\<forall>k. user_abort_of w k = None) \<and>
    (\<forall>k. before (timer_at (effective_timeout inst opts)) (ts k))"
  show "\<exists>tr. retry_loop w inst u opts n d 0 None [] = (tr, Rejected (errs (nat n))) \<and>
              calls tr = nat n + 1 \<and> length (filter is_delay tr) = nat n"
    using all_fail_general[of w ts errs 0 n inst opts u d None "[]"] h by (simp add: calls_def)
next
  assume h: "a \<le> n \<and>
       timeoutPromise w u (replay_body opts) (effective_timeout inst opts) (signal opts) tr0 = (tr1, Fulfilled res) \<and>
       applyResponseInterceptors inst res = Fulfilled fin"
  then show "retry_loop w inst u opts n d a le tr0 = (tr1, Fulfilled fin)" using retry_loop_success by blast
  from h show "calls tr1 = calls tr0 + 1" using retry_loop_success by blast
next
  assume h: "a < n \<and>
       timeoutPromise w u (replay_body opts) (effective_timeout inst opts) (signal opts) tr0 = (tr1, Fulfilled res) \<and>
       applyResponseInterceptors inst res = Rejected e \<and> \<not> no_retry e"
  have at: "attempt w inst u (replay_body opts) tr0 = (tr1, Rejected e)"
    using h by (simp add: attempt_def replay_body_fields)
  have step: "retry_loop w inst u opts n d a le tr0 =
      retry_loop w inst u (replay_body opts) n d (a + 1) (Some e) (tr1 @ [Delay d])"
    using h at by (subst retry_loop_step) simp
  have "a + 1 \<le> n" using h by simp
  from retry_loop_first_call[OF this, of w inst u "replay_body opts" d "Some e" "tr1 @ [Delay d]"]
  obtain rest where "fst (retry_loop w inst u (replay_body opts) n d (a + 1) (Some e) (tr1 @ [Delay d])) =
      (tr1 @ [Delay d]) @ Fetch (transport_call_of u (replay_body (replay_body opts))) # rest"
    by blast
  then have "fst (retry_loop w inst u opts n d a le tr0) =
      tr1 @ Delay d # Fetch (transport_call_of u (replay_body opts)) # rest"
    unfolding step by (simp add: replay_body_idem)
  then show "\<exists>rest. fst (retry_loop w inst u opts n d a le tr0) =
      tr1 @ Delay d # Fetch (transport_call_of u (replay_body opts)) # rest"
    by blast
qed

theorem C3_retry_count_witness:
  "(\<exists>tr. retry_loop world_down CommonRequest_new ''/x'' no_options 2 50 0 None [] = (tr, Rejected network_error) \<and>
         calls tr = 3 \<and> length (filter is_delay tr) = 2) \<and>
   retry_loop world_ok CommonRequest_new ''/x'' no_options 2 50 0 None [] =
     ([Fetch (transport_call_of ''/x'' no_options)], Fulfilled ok_response) \<and>
   calls [Fetch (transport_call_of ''/x'' no_options)] = calls [] + 1 \<and>
   (\<exists>rest. fst (retry_loop world_ok (with_response_interceptors [failing_json]) ''/x'' no_options 1 50 0 None []) =
      [Fetch (transport_call_of ''/x'' no_options)] @ Delay 50 #
      Fetch (transport_call_of ''/x'' no_options) # rest)"
proof -
  let ?inst = "with_response_interceptors [failing_json]"
  have r: "replay_body no_options = no_options" by (simp add: replay_body_def no_options_def)
  have h1: "0 \<le> (2::int) \<and> (\<forall>k c. fetch_of world_down k c = Fails ((\<lambda>k. 10) k) ((\<lambda>k. network_error) k)) \<and>
      (\<forall>k. \<not> no_retry ((\<lambda>k. network_error) k)) \<and> (\<forall>k. user_abort_of world_down k = None) \<and>
      (\<forall>k. before (timer_at (effective_timeout CommonRequest_new no_options)) ((\<lambda>k. 10) k))"
    by (simp add: world_down_def network_error_def no_retry_def effective_timeout_def get_timeout_def
        CommonRequest_new_def no_options_def timer_at_def)
  have h2: "(0::int) \<le> 2 \<and>
      timeoutPromise world_ok ''/x'' (replay_body no_options) (effective_timeout CommonRequest_new no_options)
        (signal no_options) [] = ([Fetch (transport_call_of ''/x'' no_options)], Fulfilled ok_response) \<and>
      applyResponseInterceptors CommonRequest_new ok_response = Fulfilled ok_response"
    by (simp add: pipeline_eval registry_eval world_ok_def Let_def)
  have h3: "(0::int) < 1 \<and>
      timeoutPromise world_ok ''/x'' (replay_body no_options) (effective_timeout ?inst no_options)
        (signal no_options) [] = ([Fetch (transport_call_of ''/x'' no_options)], Fulfilled ok_response) \<and>
      applyResponseInterceptors ?inst ok_response = Rejected (Err ''SyntaxError'' ''Unexpected end of JSON input'') \<and>
      \<not> no_retry (Err ''SyntaxError'' ''Unexpected end of JSON input'')"
    by (simp add: pipeline_eval registry_eval sample_eval Let_def)
  from C3_retry_count[of 2 world_down "\<lambda>k. 10" "\<lambda>k. network_error" CommonRequest_new no_options "''/x''" 50]
    h1 have p1: "\<exists>tr. retry_loop world_down CommonRequest_new ''/x'' no_options 2 50 0 None [] =
        (tr, Rejected network_error) \<and> calls tr = 3 \<and> length (filter is_delay tr) = 2"
    by simp
  from C3_retry_count[of 2 world_ok _ _ CommonRequest_new no_options "''/x''" 50 0 "[]"
      "[Fetch (transport_call_of ''/x'' no_options)]" ok_response ok_response None] h2
  have p2: "retry_loop world_ok CommonRequest_new ''/x'' no_options 2 50 0 None [] =
     ([Fetch (transport_call_of ''/x'' no_options)], Fulfilled ok_response) \<and>
     calls [Fetch (transport_call_of ''/x'' no_options)] = calls [] + 1"
    by blast
  from C3_retry_count[of 1 world_ok _ _ ?inst no_options "''/x''" 50 0 "[]"
      "[Fetch (transport_call_of ''/x'' no_options)]" ok_response _ None
      "Err ''SyntaxError'' ''Unexpected end of JSON input''"] h3
  have p3: "\<exists>rest. fst (retry_loop world_ok ?inst ''/x'' no_options 1 50 0 None []) =
      [Fetch (transport_call_of ''/x'' no_options)] @ Delay 50 #
      Fetch (transport_call_of ''/x'' (replay_body no_options)) # rest"
    by blast
  show ?thesis using p1 p2 p3 unfolding r by blast
qed

text \<open>
  Where the claim fails as stated: with one retry allowed and a response interceptor
  that throws (as \<^verbatim>\<open>response.json()\<close> does on a body that is not JSON), the first transport
  call is answered with status 200, and yet the transport is called a second time, and
  the request is rejected.
\<close>

theorem C3_counterexample:
  "fetch_of world_ok 0
      \<lparr>sent_url = ''/x'', sent_method = Some ''GET'', sent_headers = Some (HeadersObject []),
       sent_body = JUndefined\<rparr> = Responds 10 ok_response \<and>
   request sample_platform world_ok (with_response_interceptors [failing_json]) ''/x''
      (no_options\<lparr>method' := Some ''GET'', retries := Some 1, retryDelay := Some 50\<rparr>) =
     ([Fetch \<lparr>sent_url = ''/x'', sent_method = Some ''GET'', sent_headers = Some (HeadersObject []),
              sent_body = JUndefined\<rparr>,
       Delay 50,
       Fetch \<lparr>sent_url = ''/x'', sent_method = Some ''GET'', sent_headers = Some (HeadersObject []),
              sent_body = JUndefined\<rparr>],
      Rejected (Err ''SyntaxError'' ''Unexpected end of JSON input''))"
  by (simp add: pipeline_eval registry_eval retry_loop_step sample_eval Let_def)



text \<open>
  A timeout that does not fit the timer: with a timeout of \<open>2^31\<close> ms the deadline timer
  fires after 1 ms, so a caller who aborts 3 ms into the call gets \<^verbatim>\<open>TimeoutError\<close>, and
  a transport that fails after 10 ms with a network error is not called again.
\<close>

lemma timer_overflow_example:
  "retry_loop world_cancelled CommonRequest_new ''/x''
      (no_options\<lparr>timeout := Some 2147483648, signal := Some CallerSignal\<rparr>) 3 50 0 None [] =
     ([Fetch (transport_call_of ''/x'' (no_options\<lparr>timeout := Some 2147483648, signal := Some CallerSignal\<rparr>))],
      Rejected (Err ''TimeoutError'' ''Request timed out'')) \<and>
   retry_loop world_down CommonRequest_new ''/x'' (no_options\<lparr>timeout := Some 2147483648\<rparr>) 2 50 0 None [] =
     ([Fetch (transport_call_of ''/x'' (no_options\<lparr>timeout := Some 2147483648\<rparr>))],
      Rejected (Err ''TimeoutError'' ''Request timed out''))"
  by (simp add: pipeline_eval registry_eval retry_loop_step sample_eval Let_def)

text \<open>
  Claim C1, as the code has it. The loop has no check of the body and no error of a
  class of its own: for every request (a stream body included) with \<^verbatim>\<open>retries\<close> at least
  1 whose first transport call fails with an error named neither \<^verbatim>\<open>AbortError\<close> nor
  \<^verbatim>\<open>TimeoutError\<close>, the loop waits and calls the transport a second time with the same
  call (the body is \<^verbatim>\<open>bodyCopy\<close> when that is truthy, else \<^verbatim>\<open>body\<close>), and an error that the
  loop ends with is one that a round (the transport call or a response interceptor)
  produced.
\<close>

theorem C1_retries_anyway:
  assumes "1 \<le> n"
    and "timeoutPromise w u (replay_body opts) (effective_timeout inst opts) (signal opts) [] = (tr1, Rejected e)"
    and "\<not> no_retry e"
  shows "\<exists>rest p. retry_loop w inst u opts n d 0 None [] =
            (Fetch (transport_call_of u (replay_body opts)) # Delay d #
             Fetch (transport_call_of u (replay_body opts)) # rest, p) \<and>
          sent_body (transport_call_of u (replay_body opts)) =
            (if truthy (bodyCopy opts) then bodyCopy opts else body opts) \<and>
          (\<forall>e'. p = Rejected e' \<longrightarrow> (\<exists>tr0. snd (attempt w inst u (replay_body opts) tr0) = Rejected e'))"
proof -
  let ?c = "Fetch (transport_call_of u (replay_body opts))"
  have t1: "tr1 = [?c]" using assms(2) by (simp add: timeoutPromise_def Let_def)
  have step: "retry_loop w inst u opts n d 0 None [] =
     retry_loop w inst u (replay_body opts) n d (0 + 1) (Some e) ([?c] @ [Delay d])"
    using retry_loop_retry[of 0 n w u opts inst "[]" tr1 e d None] assms t1 by simp
  obtain rest where r: "fst (retry_loop w inst u (replay_body opts) n d (0 + 1) (Some e) ([?c] @ [Delay d]))
      = ([?c] @ [Delay d]) @ Fetch (transport_call_of u (replay_body (replay_body opts))) # rest"
    using retry_loop_first_call[of "0 + 1" n w inst u "replay_body opts" d "Some e" "[?c] @ [Delay d]"] assms(1) by auto
  obtain p where p: "snd (retry_loop w inst u opts n d 0 None []) = p" by simp
  have eq: "retry_loop w inst u opts n d 0 None [] = (?c # Delay d # ?c # rest, p)"
    using r p step by (simp add: replay_body_idem prod_eq_iff)
  have src: "\<forall>e'. p = Rejected e' \<longrightarrow> (\<exists>tr0. snd (attempt w inst u (replay_body opts) tr0) = Rejected e')"
    using retry_loop_rejection_source[of 0 n w inst u opts d None "[]"] assms(1) p by auto
  have b: "sent_body (transport_call_of u (replay_body opts)) =
            (if truthy (bodyCopy opts) then bodyCopy opts else body opts)"
    by (simp add: transport_call_of_def replay_body_def)
  show ?thesis using eq src b by blast
qed

theorem C1_retries_anyway_witness:
  "timeoutPromise world_down ''/up'' (replay_body (no_options\<lparr>body := JReadableStream [''ab'']\<rparr>))
      (effective_timeout CommonRequest_new (no_options\<lparr>body := JReadableStream [''ab'']\<rparr>))
      (signal (no_options\<lparr>body := JReadableStream [''ab'']\<rparr>)) [] =
     ([Fetch (transport_call_of ''/up'' (no_options\<lparr>body := JReadableStream [''ab'']\<rparr>))], Rejected network_error) \<and>
   (\<exists>rest p. retry_loop world_down CommonRequest_new ''/up'' (no_options\<lparr>body := JReadableStream [''ab'']\<rparr>)
        1 50 0 None [] =
      (Fetch (transport_call_of ''/up'' (no_options\<lparr>body := JReadableStream [''ab'']\<rparr>)) # Delay 50 #
       Fetch (transport_call_of ''/up'' (no_options\<lparr>body := JReadableStream [''ab'']\<rparr>)) # rest, p)) \<and>
   sent_body (transport_call_of ''/up'' (no_options\<lparr>body := JReadableStream [''ab'']\<rparr>)) = JReadableStream [''ab'']"
proof -
  let ?o = "no_options\<lparr>body := JReadableStream [''ab'']\<rparr>"
  have r: "replay_body ?o = ?o" by (simp add: replay_body_def no_options_def)
  have h: "timeoutPromise world_down ''/up'' (replay_body ?o) (effective_timeout CommonRequest_new ?o)
      (signal ?o) [] = ([Fetch (transport_call_of ''/up'' ?o)], Rejected network_error)"
    by (simp add: pipeline_eval world_down_def network_error_def Let_def)
  have n: "\<not> no_retry network_error" by (simp add: no_retry_def network_error_def)
  have b: "sent_body (transport_call_of ''/up'' ?o) = JReadableStream [''ab'']"
    by (simp add: transport_call_of_def)
  from C1_retries_anyway[of 1 world_down "''/up''" ?o CommonRequest_new _ network_error 50, OF _ h n]
  have "\<exists>rest p. retry_loop world_down CommonRequest_new ''/up'' ?o 1 50 0 None [] =
      (Fetch (transport_call_of ''/up'' ?o) # Delay 50 # Fetch (transport_call_of ''/up'' ?o) # rest, p)"
    unfolding r by auto
  then show ?thesis using h b by blast
qed

text \<open>
  Where the claim fails as stated: a request with a stream body and one retry, against a
  transport that fails with a network error. The stream is sent on both attempts, and
  the caller gets the network error of the transport.
\<close>

theorem C1_counterexample:
  "request sample_platform world_down CommonRequest_new ''/up''
      (no_options\<lparr>method' := Some ''POST'', data := JReadableStream [''ab''], retries := Some 1,
                  retryDelay := Some 50\<rparr>) =
     ([Fetch \<lparr>sent_url = ''/up'', sent_method = Some ''POST'',
              sent_headers = Some (HeadersObject [(''content-type'', ''application/json'')]),
              sent_body = JReadableStream [''ab'']\<rparr>,
       Delay 50,
       Fetch \<lparr>sent_url = ''/up'', sent_method = Some ''POST'',
              sent_headers = Some (HeadersObject [(''content-type'', ''application/json'')]),
              sent_body = JReadableStream [''ab'']\<rparr>],
      Rejected (Err ''TypeError'' ''Failed to fetch''))"
  by (simp add: pipeline_eval registry_eval retry_loop_step sample_eval Let_def)


section \<open>Claims about the body sent on each attempt\<close>

lemma normalize_no_snapshot:
  assumes "normalizeRequestOptions pf opts = Inr nopts" "isBodyReusable (body nopts)"
  shows "bodyCopy nopts = bodyCopy opts"
  using assms
  by (auto simp: normalizeRequestOptions_def Let_def simp del: isBodyReusable.simps
      split: sum.splits if_splits)

lemma loop_sends_same_body:
  assumes "Fetch c \<in> set (fst (retry_loop w inst u opts n d a le []))"
  shows "sent_body c = (if truthy (bodyCopy opts) then bodyCopy opts else body opts)"
proof -
  obtain rest where r: "fst (retry_loop w inst u opts n d a le []) = [] @ rest"
    and s: "set rest \<subseteq> {Fetch (transport_call_of u (replay_body opts)), Delay d}"
    using retry_loop_trace_extends[of w inst u opts n d a le "[]"] by blast
  have "c = transport_call_of u (replay_body opts)" using assms r s by auto
  then show ?thesis by (simp add: transport_call_of_def replay_body_def)
qed

text \<open>
  Claim C8, as the code has it. Normalization makes a copy only of a body that is truthy
  and not reusable: for every request whose normalized body is reusable (absent, a
  string, form data, a blob, a buffer, an object), it produces no snapshot and leaves
  \<^verbatim>\<open>bodyCopy\<close> as the caller gave it. Every transport call of the retry loop, the first
  one included, then sends \<^verbatim>\<open>bodyCopy\<close> when that is truthy, and else the one normalized
  body value.
\<close>

theorem C8_no_snapshot:
  "(normalizeRequestOptions pf opts = Inr nopts \<and> isBodyReusable (body nopts) \<longrightarrow> bodyCopy nopts = bodyCopy opts)
   \<and> (Fetch c \<in> set (fst (retry_loop w inst u nopts n d 0 None [])) \<longrightarrow>
        sent_body c = (if truthy (bodyCopy nopts) then bodyCopy nopts else body nopts))"
  using normalize_no_snapshot loop_sends_same_body by blast

theorem C8_no_snapshot_witness:
  "normalizeRequestOptions sample_platform text_request = Inr text_normalized \<and>
   isBodyReusable (body text_normalized) \<and>
   bodyCopy text_normalized = bodyCopy text_request \<and>
   Fetch (transport_call_of ''/x'' text_normalized)
     \<in> set (fst (retry_loop world_down CommonRequest_new ''/x'' text_normalized 1 50 0 None [])) \<and>
   sent_body (transport_call_of ''/x'' text_normalized) = JStr ''hi''"
proof -
  have n: "normalizeRequestOptions sample_platform text_request = Inr text_normalized"
    by (simp add: pipeline_eval sample_eval Let_def)
  have r: "isBodyReusable (body text_normalized)"
    by (simp add: text_normalized_def no_options_def)
  have l: "retry_loop world_down CommonRequest_new ''/x'' text_normalized 1 50 0 None [] =
      ([Fetch (transport_call_of ''/x'' text_normalized), Delay 50,
        Fetch (transport_call_of ''/x'' text_normalized)], Rejected network_error)"
    by (simp add: pipeline_eval retry_loop_step sample_eval registry_eval Let_def)
  have m: "Fetch (transport_call_of ''/x'' text_normalized)
     \<in> set (fst (retry_loop world_down CommonRequest_new ''/x'' text_normalized 1 50 0 None []))"
    by (simp add: l)
  note t = C8_no_snapshot[of sample_platform text_request text_normalized
      "transport_call_of ''/x'' text_normalized" world_down CommonRequest_new "''/x''" 1 50]
  have b: "sent_body (transport_call_of ''/x'' text_normalized) = JStr ''hi''"
    using t m by (simp add: text_normalized_def no_options_def)
  have c: "bodyCopy text_normalized = bodyCopy text_request"
    using t n r by blast
  show ?thesis using n r c m b by blast
qed

text \<open>
  Where the claim fails as stated: a request with the text body \<^verbatim>\<open>'hi'\<close>, a reusable
  value. After normalization \<^verbatim>\<open>bodyCopy\<close> is still undefined: there is no snapshot.
\<close>

theorem C8_counterexample:
  "isBodyReusable (JStr ''hi'') \<and>
   normalizeRequestOptions sample_platform (no_options\<lparr>data := JStr ''hi''\<rparr>) =
     Inr (no_options\<lparr>headers := Some (HeadersObject [(''content-type'', ''text/plain;charset=UTF-8'')]),
                     signal := Some FreshSignal, data := JStr ''hi'', body := JStr ''hi'',
                     bodyCopy := JUndefined\<rparr>)"
  by (simp add: pipeline_eval sample_eval Let_def)

section \<open>Claims about the progress paths\<close>












section \<open>Claims about the response interceptors\<close>

lemma forEach_apply:
  "\<forall>q\<in>set qs. map_of tbl (fst q) = Some (snd q) \<Longrightarrow>
   forEach_ids tbl (\<lambda>interceptor res. interceptor res) (map fst qs) res = apply_in_order (map snd qs) res"
  by (induction qs arbitrary: res) (auto split: promise.splits)

lemma applyResponse_order:
  assumes "run_calls cs InterceptorManager_new = (ids, interceptors_response inst)"
  shows "applyResponseInterceptors inst res = apply_in_order (rev (map snd (surviving cs 0))) res"
proof -
  have m: "interceptors_response inst =
      \<lparr>interceptors = surviving cs 0, interceptorIds = map fst (surviving cs 0), nextId = count_uses cs\<rparr>"
    using assms run_calls_new[of cs] by simp
  have d: "distinct (map fst (surviving cs 0))"
    using surviving_sorted[of cs 0] by (simp add: strict_sorted_iff)
  have "forEach_ids (surviving cs 0) (\<lambda>interceptor res. interceptor res) (map fst (rev (surviving cs 0))) res =
        apply_in_order (map snd (rev (surviving cs 0))) res"
    using d by (intro forEach_apply) simp
  then show ?thesis
    by (cases "surviving cs 0")
       (simp_all add: applyResponseInterceptors_def size_of_def m forEachReverseAsync_def rev_map)
qed

lemma timeoutPromise_fulfilled:
  "snd (timeoutPromise w u opts tmo sg tr) = Fulfilled res \<Longrightarrow> \<exists>k c t. fetch_of w k c = Responds t res"
  unfolding timeoutPromise_def Let_def
  by (cases "fetch_of w (calls tr) (transport_call_of u opts)";
      cases "earliest (signal_abort w (calls tr) sg) (timer_at tmo)")
     (auto split: if_splits)

lemma retry_loop_fulfilled_source:
  assumes "snd (retry_loop w inst u opts n d a le tr) = Fulfilled fin"
  shows "\<exists>tr0 res. snd (timeoutPromise w u (replay_body opts) (effective_timeout inst opts) (signal opts) tr0)
                      = Fulfilled res \<and> applyResponseInterceptors inst res = Fulfilled fin"
  using assms
proof (induction "nat (n + 1 - a)" arbitrary: a opts le tr)
  case 0
  then have "\<not> a \<le> n" by simp
  then show ?case using "0.prems" by (subst (asm) retry_loop_step) simp
next
  case (Suc m)
  then have an: "a \<le> n" and m: "m = nat (n + 1 - (a + 1))" by auto
  obtain tr1 p where tp: "timeoutPromise w u (replay_body opts) (effective_timeout inst opts) (signal opts) tr = (tr1, p)"
    by (cases "timeoutPromise w u (replay_body opts) (effective_timeout inst opts) (signal opts) tr")
  show ?case
  proof (cases p)
    case (Fulfilled res)
    then have at: "attempt w inst u (replay_body opts) tr = (tr1, applyResponseInterceptors inst res)"
      using tp by (simp add: attempt_def replay_body_fields)
    show ?thesis
    proof (cases "applyResponseInterceptors inst res")
      case (Fulfilled fin')
      then have "fin' = fin" using Suc.prems an at by (subst (asm) retry_loop_step) simp
      then show ?thesis using tp \<open>p = Fulfilled res\<close> Fulfilled by (metis snd_conv)
    next
      case Pending
      then show ?thesis using Suc.prems an at by (subst (asm) retry_loop_step) simp
    next
      case (Rejected e)
      then have "snd (retry_loop w inst u (replay_body opts) n d (a + 1) (Some e) (tr1 @ [Delay d])) = Fulfilled fin"
        using Suc.prems an at by (subst (asm) retry_loop_step) (simp split: if_splits)
      from Suc.hyps(1)[OF m this] show ?thesis by (simp add: replay_body_idem replay_body_fields)
    qed
  next
    case Pending
    then have at: "attempt w inst u (replay_body opts) tr = (tr1, Pending)"
      using tp by (simp add: attempt_def replay_body_fields)
    then show ?thesis using Suc.prems an by (subst (asm) retry_loop_step) simp
  next
    case (Rejected e)
    then have at: "attempt w inst u (replay_body opts) tr = (tr1, Rejected e)"
      using tp by (simp add: attempt_def replay_body_fields)
    then have "snd (retry_loop w inst u (replay_body opts) n d (a + 1) (Some e) (tr1 @ [Delay d])) = Fulfilled fin"
      using Suc.prems an by (subst (asm) retry_loop_step) (simp split: if_splits)
    from Suc.hyps(1)[OF m this] show ?thesis by (simp add: replay_body_idem replay_body_fields)
  qed
qed

lemma upload_ignores_response_registry:
  "uploadWithProgress pf w (inst\<lparr>interceptors_response := reg\<rparr>) u opts cb tr =
   uploadWithProgress pf w inst u opts cb tr"
  by (simp add: uploadWithProgress_def effective_timeout_def get_timeout_def Let_def
      split: option.splits HeadersInit.splits)

text \<open>
  Claim C5, as the code has it. Only the direct path applies the response interceptors:
  what a direct request returns is a response of the transport to which the registered
  response interceptors, those not ejected, were applied in reverse registration order.
  The download path and the upload path both return their own response, and nothing
  they do depends on the response interceptors registered.
\<close>

theorem C5_interceptors_direct_only:
  assumes "run_calls cs InterceptorManager_new = (ids, interceptors_response inst)"
  shows "(onDownloadProgress (options ctx) = None \<and> onUploadProgress (options ctx) = None \<and>
          snd (dispatch pf w inst ctx) = Fulfilled fin
          \<longrightarrow> (\<exists>k c t res. fetch_of w k c = Responds t res \<and>
                  apply_in_order (rev (map snd (surviving cs 0))) res = Fulfilled fin))
       \<and> (onDownloadProgress (options ctx) \<noteq> None \<or> onUploadProgress (options ctx) \<noteq> None
          \<longrightarrow> dispatch pf w (inst\<lparr>interceptors_response := reg\<rparr>) ctx = dispatch pf w inst ctx)"
proof (intro conjI impI)
  assume h: "onDownloadProgress (options ctx) = None \<and> onUploadProgress (options ctx) = None \<and>
          snd (dispatch pf w inst ctx) = Fulfilled fin"
  then obtain tr0 res where
    tp: "snd (timeoutPromise w (url ctx) (replay_body (options ctx)) (effective_timeout inst (options ctx))
               (signal (options ctx)) tr0) = Fulfilled res"
    and ap: "applyResponseInterceptors inst res = Fulfilled fin"
    using retry_loop_fulfilled_source by (fastforce simp: dispatch_def)
  from timeoutPromise_fulfilled[OF tp] ap applyResponse_order[OF assms]
  show "\<exists>k c t res. fetch_of w k c = Responds t res \<and>
          apply_in_order (rev (map snd (surviving cs 0))) res = Fulfilled fin"
    by metis
next
  assume "onDownloadProgress (options ctx) \<noteq> None \<or> onUploadProgress (options ctx) \<noteq> None"
  then show "dispatch pf w (inst\<lparr>interceptors_response := reg\<rparr>) ctx = dispatch pf w inst ctx"
    by (auto simp: dispatch_def upload_ignores_response_registry split: option.splits)
qed

theorem C5_interceptors_direct_only_witness:
  "run_calls [Use always_teapot] InterceptorManager_new =
     ([0], interceptors_response (with_response_interceptors [always_teapot])) \<and>
   snd (dispatch sample_platform world_ok (with_response_interceptors [always_teapot])
          \<lparr>url = ''/x'', options = no_options\<rparr>) = Fulfilled teapot \<and>
   (\<exists>k c t res. fetch_of world_ok k c = Responds t res \<and>
      apply_in_order (rev (map snd (surviving [Use always_teapot] 0))) res = Fulfilled teapot) \<and>
   dispatch sample_platform world_partial
      ((with_response_interceptors [always_teapot])\<lparr>interceptors_response := InterceptorManager_new\<rparr>)
      download_ctx =
     dispatch sample_platform world_partial (with_response_interceptors [always_teapot]) download_ctx"
proof -
  let ?inst = "with_response_interceptors [always_teapot]"
  have r: "run_calls [Use always_teapot] InterceptorManager_new = ([0], interceptors_response ?inst)"
    by (simp add: with_response_interceptors_def registry_eval CommonRequest_new_def)
  have h1: "onDownloadProgress (options \<lparr>url = ''/x'', options = no_options\<rparr>) = None \<and>
      onUploadProgress (options \<lparr>url = ''/x'', options = no_options\<rparr>) = None \<and>
      snd (dispatch sample_platform world_ok ?inst \<lparr>url = ''/x'', options = no_options\<rparr>) = Fulfilled teapot"
    by (simp add: pipeline_eval registry_eval retry_loop_step sample_eval Let_def)
  have h2: "onDownloadProgress (options download_ctx) \<noteq> None \<or> onUploadProgress (options download_ctx) \<noteq> None"
    by (simp add: download_ctx_def no_options_def)
  note t1 = C5_interceptors_direct_only[OF r, of "\<lparr>url = ''/x'', options = no_options\<rparr>"
      sample_platform world_ok teapot]
  note t2 = C5_interceptors_direct_only[OF r, of download_ctx sample_platform world_partial _
      InterceptorManager_new]
  have p1: "\<exists>k c t res. fetch_of world_ok k c = Responds t res \<and>
      apply_in_order (rev (map snd (surviving [Use always_teapot] 0))) res = Fulfilled teapot"
    using t1 h1 by blast
  have p2: "dispatch sample_platform world_partial (?inst\<lparr>interceptors_response := InterceptorManager_new\<rparr>)
      download_ctx = dispatch sample_platform world_partial ?inst download_ctx"
    using t2 h2 by blast
  show ?thesis using r h1 p1 p2 by blast
qed

text \<open>
  Where the claim fails as stated: with a response interceptor registered that answers
  every response with a fixed one, a download request returns the response that the
  download path made, not the interceptor's; applied to that response the interceptor
  would have returned its own.
\<close>

theorem C5_counterexample:
  "request sample_platform world_partial (with_response_interceptors [always_teapot]) ''/file''
      (no_options\<lparr>onDownloadProgress := Some silent_progress\<rparr>) =
     ([Fetch \<lparr>sent_url = ''/file'', sent_method = None, sent_headers = Some (HeadersObject []),
              sent_body = JUndefined\<rparr>,
       DownloadProgress \<lparr>finished = 2, total = Some 3\<rparr>,
       DownloadProgress \<lparr>finished = 3, total = Some 3\<rparr>],
      Fulfilled \<lparr>status = 200, ok = True, statusText = [], res_headers = [],
                 res_body = Some \<lparr>chunks = [(5, ''ab''), (6, ''c'')], closes_at = 7, close_error = None\<rparr>\<rparr>) \<and>
   applyResponseInterceptors (with_response_interceptors [always_teapot])
      \<lparr>status = 200, ok = True, statusText = [], res_headers = [],
       res_body = Some \<lparr>chunks = [(5, ''ab''), (6, ''c'')], closes_at = 7, close_error = None\<rparr>\<rparr> =
     Fulfilled teapot \<and>
   status teapot = 418"
  by (simp add: pipeline_eval registry_eval sample_eval Let_def downloadWithProgress_def
      Response_of_stream_def)


section \<open>Where the code departs from its own intent\<close>

text \<open>
  Claim C2. The claim holds the chain to be the fold of the callbacks over the in-flight
  context, as \<^verbatim>\<open>applyResponseInterceptors\<close> does with \<^verbatim>\<open>res = await interceptor(res)\<close>.
  \<^verbatim>\<open>applyRequestInterceptors\<close> calls \<^verbatim>\<open>interceptor(ctx)\<close>, with the initial context, for
  every callback. With a first interceptor that puts a base url in front of the url and
  a second that appends a query to the url it is given, the code returns the url
  \<^verbatim>\<open>/x?v=1\<close>, where the chain of the claim returns \<^verbatim>\<open>https://api.test/x?v=1\<close>.
\<close>

theorem C2_callbacks_get_initial_context:
  "applyRequestInterceptors (with_request_interceptors [add_base, add_query])
      \<lparr>url = ''/x'', options = no_options\<rparr> =
     Fulfilled \<lparr>url = ''/x?v=1'', options = no_options\<rparr> \<and>
   chain_as_specified [add_base, add_query] \<lparr>url = ''/x'', options = no_options\<rparr> =
     Fulfilled \<lparr>url = ''https://api.test/x?v=1'', options = no_options\<rparr>"
  by (simp add: pipeline_eval registry_eval sample_eval Let_def)

text \<open>
  Every response that the download path returns is the one \<^verbatim>\<open>new Response(stream2)\<close>
  makes: the body stream of the transport's response, with status 200 and no headers.
\<close>

lemma download_returns_default_response:
  assumes "snd (downloadWithProgress w u opts cb tr) = Fulfilled r"
  shows "\<exists>t res stream. fetch_of w (calls tr) (transport_call_of u opts) = Responds t res \<and>
           res_body res = Some stream \<and>
           r = \<lparr>status = 200, ok = True, statusText = [], res_headers = [], res_body = Some stream\<rparr>"
  using assms unfolding downloadWithProgress_def Let_def
  by (cases "fetch_of w (calls tr) (transport_call_of u opts)";
      cases "signal_abort w (calls tr) (signal opts)")
     (auto split: option.splits prod.splits sum.splits if_splits simp: Response_of_stream_def)

text \<open>
  Claim C6. The body is handed over untouched, but the new response does not carry the
  status and headers of the original, as the responses that the upload path builds do:
  for a transport response with status 206 and the headers \<^verbatim>\<open>content-length\<close> and
  \<^verbatim>\<open>content-type\<close>, the download request returns the same body stream in a response with
  status 200 and no headers.
\<close>

theorem C6_download_drops_status_and_headers:
  "request pf world_partial CommonRequest_new ''/file''
      (no_options\<lparr>onDownloadProgress := Some silent_progress\<rparr>) =
     ([Fetch \<lparr>sent_url = ''/file'', sent_method = None, sent_headers = Some (HeadersObject []),
              sent_body = JUndefined\<rparr>,
       DownloadProgress \<lparr>finished = 2, total = Some 3\<rparr>,
       DownloadProgress \<lparr>finished = 3, total = Some 3\<rparr>],
      Fulfilled \<lparr>status = 200, ok = True, statusText = [], res_headers = [],
                 res_body = res_body partial_response\<rparr>) \<and>
   fetch_of world_partial 0
      \<lparr>sent_url = ''/file'', sent_method = None, sent_headers = Some (HeadersObject []),
       sent_body = JUndefined\<rparr> = Responds 4 partial_response \<and>
   status partial_response = 206 \<and>
   res_headers partial_response = [(''content-length'', ''3''), (''content-type'', ''text/plain'')]"
  by (simp add: pipeline_eval registry_eval sample_eval Let_def downloadWithProgress_def
      Response_of_stream_def)

text \<open>
  Claim C7. For \<^verbatim>\<open>request('/x', {method:'POST', data:{a:1}})\<close> against a transport that
  answers with status 200, whatever \<^verbatim>\<open>JSON.stringify\<close> does: the transport is given the
  object \<^verbatim>\<open>{a:1}\<close> itself as the body, not its JSON text, and the content type
  \<^verbatim>\<open>application/json\<close>. The test for the stringify reads the content type that was there
  before the detected one was set, and the default \<^verbatim>\<open>application/json;charset=utf-8\<close> of
  the module is never used.
\<close>

theorem C7_object_body_not_encoded:
  "request pf world_ok CommonRequest_new ''/x''
      (no_options\<lparr>method' := Some ''POST'', data := JObject [(''a'', JNum 1)]\<rparr>) =
     ([Fetch \<lparr>sent_url = ''/x'', sent_method = Some ''POST'',
              sent_headers = Some (HeadersObject [(''content-type'', ''application/json'')]),
              sent_body = JObject [(''a'', JNum 1)]\<rparr>],
      Fulfilled ok_response)"
  by (simp add: pipeline_eval registry_eval retry_loop_step sample_eval Let_def)

end
